(* ===== verification/Prelude.thy ===== *)
theory Prelude
  imports Complex_Main
begin

text \<open>
  Shared vocabulary of the pumpkin-carver development: the types that name
  JavaScript values of \<^verbatim>\<open>src/script.js\<close>, the in-place array removal
  that both \<^verbatim>\<open>Array.prototype.splice\<close> and Konva's node removal perform,
  and the generic list lemmas the component theories share.  JavaScript
  numbers are modelled as exact rationals (\<open>num\<close>); every number the
  editor computes is a finite value built from integers by \<open>+\<close>, \<open>-\<close>,
  \<open>*\<close>, \<open>/\<close> and \<open>Math.floor\<close>.
\<close>

type_synonym num = rat

named_theorems model_defs \<open>definitions unfolded to evaluate a handler of the editor\<close>
named_theorems inv_simps \<open>facts used to show that a handler keeps an invariant\<close>

subsection \<open>Removing one element of an array in place\<close>

text \<open>
  \<^verbatim>\<open>arr.splice(k, 1)\<close> with \<open>k\<close> in range removes the element at index
  \<open>k\<close>; later elements move down by one.  Konva's \<^verbatim>\<open>Node.remove\<close>
  removes a child from its parent's \<^verbatim>\<open>children\<close> array this way.
\<close>

definition splice1 :: "nat \<Rightarrow> 'a list \<Rightarrow> 'a list" where
  "splice1 k xs = take k xs @ drop (Suc k) xs"

lemma splice1_append_Cons [simp]:
  "length ys = k \<Longrightarrow> splice1 k (ys @ x # zs) = ys @ zs"
  by (simp add: splice1_def)

lemma splice1_beyond [simp]: "length xs \<le> k \<Longrightarrow> splice1 k xs = xs"
  by (simp add: splice1_def)

lemma length_splice1 [simp]:
  "k < length xs \<Longrightarrow> length (splice1 k xs) = length xs - 1"
  by (simp add: splice1_def)

lemma splice1_Nil [simp]: "splice1 k [] = []"
  by (simp add: splice1_def)

lemma splice1_Cons_0 [simp]: "splice1 0 (x # xs) = xs"
  by (simp add: splice1_def)

lemma splice1_Cons_Suc [simp]: "splice1 (Suc k) (x # xs) = x # splice1 k xs"
  by (simp add: splice1_def)

lemma set_splice1_subset: "set (splice1 k xs) \<subseteq> set xs"
  by (auto simp: splice1_def dest: in_set_takeD in_set_dropD)

lemma list_all_splice1 [simp]: "list_all P xs \<Longrightarrow> list_all P (splice1 k xs)"
  using set_splice1_subset [of k xs] by (auto simp: list_all_iff)

subsection \<open>Generic list facts\<close>

lemma filter_take_drop_split:
  "filter P xs = filter P (take k xs) @ filter P (drop k xs)"
  by (metis append_take_drop_id filter_append)

lemma nth_append_length_plus [simp]:
  "(ys @ zs) ! (length ys + i) = zs ! i"
  by (simp add: nth_append)

lemma last_snoc_butlast [simp]: "xs \<noteq> [] \<Longrightarrow> butlast xs @ [last xs] = xs"
  by simp

lemma drop_Suc_nth_Cons:
  "k < length xs \<Longrightarrow> drop k xs = xs ! k # drop (Suc k) xs"
  by (simp add: Cons_nth_drop_Suc)

lemma take_Suc_nth_snoc:
  "k < length xs \<Longrightarrow> take (Suc k) xs = take k xs @ [xs ! k]"
  by (simp add: take_Suc_conv_app_nth)

lemma pred_option_True [simp]: "pred_option (\<lambda>_. True) x"
  by (cases x) auto

lemma list_all_subset: "set ys \<subseteq> set xs \<Longrightarrow> list_all P xs \<Longrightarrow> list_all P ys"
  by (auto simp: list_all_iff)

subsection \<open>Evaluating floor on numeral fractions\<close>

text \<open>\<^verbatim>\<open>Math.floor\<close> of a constant fraction, for the simplifier.\<close>

lemma floor_numeral_divide [simp]:
  "\<lfloor>(numeral a :: 'a::floor_ceiling) / numeral b\<rfloor> = numeral a div numeral b"
  using floor_divide_of_int_eq [of "numeral a" "numeral b", where 'a = 'a] by simp

lemma floor_neg_numeral_divide [simp]:
  "\<lfloor>- ((numeral a :: 'a::floor_ceiling) / numeral b)\<rfloor> = - numeral a div numeral b"
  using floor_divide_of_int_eq [of "- numeral a" "numeral b", where 'a = 'a] by simp

end
