(* ===== verification/History.thy ===== *)
theory History
  imports Prelude
begin

text \<open>
  The undo/redo history log of \<^verbatim>\<open>src/script.js\<close> (lines 45--134):
  the array \<^verbatim>\<open>history\<close> of snapshots, the cursor \<^verbatim>\<open>historyStep\<close>
  and the bound \<^verbatim>\<open>MAX_HISTORY\<close>.  The snapshot type is a parameter
  \<open>'a\<close>: the editor (theory \<open>Editor\<close>) instantiates it with its part
  descriptors, and every lemma here holds for any snapshot type.  Undo and
  redo are split into their effect on the log (here) and their effect on the
  scene (in \<open>Editor\<close>); \<open>hist_undo\<close> and \<open>hist_redo\<close> return \<open>None\<close>
  where the source's guard makes the handler a no-op.
  The log refines an abstract zipper (past, present, future) whose save
  discards the future and evicts the oldest past entry at the capacity bound.
\<close>

record 'a hist_log =
  history :: "'a list"
  historyStep :: int

definition MAX_HISTORY :: nat where
  "MAX_HISTORY = 50"

definition hist_init :: "'a hist_log" where
  "hist_init = \<lparr>history = [], historyStep = -1\<rparr>"

declare hist_init_def [code_unfold]

text \<open>\<^verbatim>\<open>saveState\<close> minus the serialisation of the scene (lines 51--84).\<close>

definition save_hist :: "'a \<Rightarrow> 'a hist_log \<Rightarrow> 'a hist_log" where
  "save_hist x h =
     (let hs = (if historyStep h < int (length (history h)) - 1
                then take (nat (historyStep h + 1)) (history h) else history h);
          hs' = hs @ [x]
      in if MAX_HISTORY < length hs'
         then \<lparr>history = tl hs', historyStep = historyStep h\<rparr>
         else \<lparr>history = hs', historyStep = historyStep h + 1\<rparr>)"

text \<open>The guards of \<^verbatim>\<open>undo\<close> and \<^verbatim>\<open>redo\<close> and their cursor moves
  (lines 95--96, 116--117).\<close>

definition hist_undo :: "'a hist_log \<Rightarrow> 'a hist_log option" where
  "hist_undo h = (if 0 < historyStep h then Some (h\<lparr>historyStep := historyStep h - 1\<rparr>) else None)"

definition hist_redo :: "'a hist_log \<Rightarrow> 'a hist_log option" where
  "hist_redo h =
     (if historyStep h < int (length (history h)) - 1
      then Some (h\<lparr>historyStep := historyStep h + 1\<rparr>) else None)"

text \<open>\<^verbatim>\<open>history[historyStep]\<close>: a JavaScript array read out of range is
  \<^verbatim>\<open>undefined\<close>, which the code tests for (lines 105, 126).\<close>

definition hist_at :: "'a hist_log \<Rightarrow> 'a option" where
  "hist_at h =
     (if 0 \<le> historyStep h \<and> historyStep h < int (length (history h))
      then Some (history h ! nat (historyStep h)) else None)"

text \<open>\<^verbatim>\<open>updateHistoryButtons\<close> (lines 89--92).\<close>

definition undo_disabled :: "'a hist_log \<Rightarrow> bool" where
  "undo_disabled h \<longleftrightarrow> historyStep h \<le> 0"

definition redo_disabled :: "'a hist_log \<Rightarrow> bool" where
  "redo_disabled h \<longleftrightarrow> int (length (history h)) - 1 \<le> historyStep h"

text \<open>The handler's effect on the log, the no-op branch included.\<close>

definition undo_log :: "'a hist_log \<Rightarrow> 'a hist_log" where
  "undo_log h = (case hist_undo h of None \<Rightarrow> h | Some h' \<Rightarrow> h')"

definition redo_log :: "'a hist_log \<Rightarrow> 'a hist_log" where
  "redo_log h = (case hist_redo h of None \<Rightarrow> h | Some h' \<Rightarrow> h')"

subsection \<open>Invariant\<close>

definition hist_inv :: "'a hist_log \<Rightarrow> bool" where
  "hist_inv h \<longleftrightarrow>
     length (history h) \<le> MAX_HISTORY \<and>
     (if history h = [] then historyStep h = -1
      else 0 \<le> historyStep h \<and> historyStep h < int (length (history h)))"

subsection \<open>Abstract specification: a bounded zipper\<close>

text \<open>Past entries oldest first, the present entry, future entries nearest
  first; \<open>None\<close> is the empty log.\<close>

type_synonym 'a zipper = "'a list \<times> 'a \<times> 'a list"

fun z_save :: "'a \<Rightarrow> 'a zipper option \<Rightarrow> 'a zipper option" where
  "z_save x None = Some ([], x, [])"
| "z_save x (Some (ps, c, fs)) =
     Some (if MAX_HISTORY < length ps + 2 then tl (ps @ [c]) else ps @ [c], x, [])"

fun z_undo :: "'a zipper option \<Rightarrow> 'a zipper option" where
  "z_undo None = None"
| "z_undo (Some (ps, c, fs)) =
     (if ps = [] then Some (ps, c, fs) else Some (butlast ps, last ps, c # fs))"

fun z_redo :: "'a zipper option \<Rightarrow> 'a zipper option" where
  "z_redo None = None"
| "z_redo (Some (ps, c, [])) = Some (ps, c, [])"
| "z_redo (Some (ps, c, f # fs)) = Some (ps @ [c], f, fs)"

definition hist_abs :: "'a hist_log \<Rightarrow> 'a zipper option" where
  "hist_abs h =
     (if history h = [] then None
      else Some (take (nat (historyStep h)) (history h), history h ! nat (historyStep h),
                 drop (Suc (nat (historyStep h))) (history h)))"

subsection \<open>The log operations on the invariant\<close>

lemma hist_inv_init [inv_simps]: "hist_inv hist_init"
  by (simp add: hist_inv_def hist_init_def MAX_HISTORY_def)

lemma hist_inv_cursor:
  assumes "hist_inv h" "history h \<noteq> []"
  obtains k where "historyStep h = int k" "k < length (history h)"
  using assms by (auto simp: hist_inv_def split: if_splits) (metis nat_0_le nat_less_iff)

text \<open>Under the invariant the truncation of line 53 keeps exactly the entries
  up to the cursor, whether or not the branch is taken.\<close>

lemma hist_inv_prefix:
  assumes "hist_inv h"
  shows "(if historyStep h < int (length (history h)) - 1
          then take (nat (historyStep h + 1)) (history h) else history h)
         = take (nat (historyStep h + 1)) (history h)"
  using assms by (auto simp: hist_inv_def split: if_splits)

lemma save_hist_eq:
  assumes "hist_inv h"
  shows "save_hist x h =
    (let hs' = take (nat (historyStep h + 1)) (history h) @ [x]
     in if MAX_HISTORY < length hs'
        then \<lparr>history = tl hs', historyStep = historyStep h\<rparr>
        else \<lparr>history = hs', historyStep = historyStep h + 1\<rparr>)"
  using hist_inv_prefix [OF assms] by (simp add: save_hist_def Let_def)

lemma length_take_step:
  assumes "hist_inv h"
  shows "length (take (nat (historyStep h + 1)) (history h)) = nat (historyStep h + 1)"
  using assms by (auto simp: hist_inv_def split: if_splits)

lemma save_hist_inv [inv_simps]: "hist_inv h \<Longrightarrow> hist_inv (save_hist x h)"
  using length_take_step [of h]
  by (auto simp: save_hist_eq hist_inv_def Let_def MAX_HISTORY_def split: if_splits)

lemma hist_undo_inv: "hist_inv h \<Longrightarrow> hist_undo h = Some h' \<Longrightarrow> hist_inv h'"
  by (auto simp: hist_undo_def hist_inv_def split: if_splits)

lemma hist_redo_inv: "hist_inv h \<Longrightarrow> hist_redo h = Some h' \<Longrightarrow> hist_inv h'"
  by (auto simp: hist_redo_def hist_inv_def split: if_splits)

lemma undo_log_inv [inv_simps]: "hist_inv h \<Longrightarrow> hist_inv (undo_log h)"
  by (auto simp: undo_log_def hist_undo_inv split: option.splits)

lemma redo_log_inv [inv_simps]: "hist_inv h \<Longrightarrow> hist_inv (redo_log h)"
  by (auto simp: redo_log_def hist_redo_inv split: option.splits)

lemma hist_at_inv: "hist_inv h \<Longrightarrow> history h \<noteq> [] \<Longrightarrow> hist_at h = Some (history h ! nat (historyStep h))"
  by (auto simp: hist_at_def hist_inv_def split: if_splits)

lemma buttons_match_guards:
  "undo_disabled h \<longleftrightarrow> hist_undo h = None"
  "redo_disabled h \<longleftrightarrow> hist_redo h = None"
  by (auto simp: undo_disabled_def redo_disabled_def hist_undo_def hist_redo_def)

text \<open>C13: every operation on the history log (save, undo, redo) keeps its invariant: at most MAX_HISTORY entries, and the cursor is -1 on the empty log and a valid index otherwise.\<close>

theorem hist_ops_keep_inv:
  assumes "hist_inv h"
  shows "hist_inv (save_hist x h) \<and> hist_inv (undo_log h) \<and> hist_inv (redo_log h)"
  using assms by (simp add: save_hist_inv undo_log_inv redo_log_inv)

theorem hist_ops_keep_inv_witness:
  "hist_inv \<lparr>history = [1::int, 2, 3], historyStep = 1\<rparr> \<and>
   hist_inv (save_hist 7 \<lparr>history = [1::int, 2, 3], historyStep = 1\<rparr>) \<and>
   hist_inv (undo_log \<lparr>history = [1::int, 2, 3], historyStep = 1\<rparr>) \<and>
   hist_inv (redo_log \<lparr>history = [1::int, 2, 3], historyStep = 1\<rparr>)"
  using hist_ops_keep_inv [of "\<lparr>history = [1::int, 2, 3], historyStep = 1\<rparr>" 7]
  by (simp add: hist_inv_def MAX_HISTORY_def)

subsection \<open>Refinement of the bounded zipper\<close>

text \<open>C10: saving a snapshot refines the abstract save: the present entry moves to the past, the future is discarded, the new snapshot becomes the present, and the oldest past entry is evicted when the log would exceed MAX_HISTORY.\<close>

theorem hist_abs_save: "hist_inv h \<Longrightarrow> hist_abs (save_hist x h) = z_save x (hist_abs h)"
proof (cases "history h = []")
  case True
  assume "hist_inv h"
  with True show ?thesis
    by (simp add: save_hist_def hist_abs_def hist_inv_def MAX_HISTORY_def)
next
  case False
  assume inv: "hist_inv h"
  then obtain k where k: "historyStep h = int k" "k < length (history h)"
    using False by (rule hist_inv_cursor)
  let ?ps = "take k (history h)" and ?c = "history h ! k"
  have nk: "nat (int k + 1) = Suc k" by simp
  have tk: "take (Suc k) (history h) = ?ps @ [?c]"
    using k(2) by (simp add: take_Suc_nth_snoc)
  have lps: "length ?ps = k" using k by simp
  show ?thesis
    using inv False k lps
    by (auto simp: save_hist_eq nk tk hist_abs_def Let_def nth_append tl_append2 MAX_HISTORY_def)
qed

theorem hist_abs_save_witness:
  "hist_inv \<lparr>history = [1::int, 2, 3], historyStep = 1\<rparr> \<and>
   hist_abs (save_hist 7 \<lparr>history = [1::int, 2, 3], historyStep = 1\<rparr>) = Some ([1, 2], 7, [])"
  using hist_abs_save [of "\<lparr>history = [1::int, 2, 3], historyStep = 1\<rparr>" 7]
  by (simp add: hist_inv_def hist_abs_def MAX_HISTORY_def)

text \<open>C11: undo on the log refines the abstract undo: it keeps the log's
  invariant, so the cursor never leaves the log, and the newest past entry
  becomes the present while the old present heads the future; with no past
  it is a no-op.\<close>

theorem hist_abs_undo:
  "hist_inv h \<Longrightarrow> hist_inv (undo_log h) \<and> hist_abs (undo_log h) = z_undo (hist_abs h)"
proof -
  assume inv: "hist_inv h"
  have "hist_abs (undo_log h) = z_undo (hist_abs h)"
  proof (cases "history h = []")
    case True
    then show ?thesis by (simp add: undo_log_def hist_undo_def hist_abs_def split: option.splits)
  next
    case False
    then obtain k where k: "historyStep h = int k" "k < length (history h)"
      using inv by (blast intro: hist_inv_cursor)
    show ?thesis
    proof (cases k)
      case 0
      with k False show ?thesis by (simp add: undo_log_def hist_undo_def hist_abs_def)
    next
      case (Suc j)
      have tk: "take (Suc j) (history h) = take j (history h) @ [history h ! j]"
        using k(2) Suc by (simp add: take_Suc_nth_snoc)
      have dk: "drop j (history h) = history h ! j # drop (Suc j) (history h)"
        using k(2) Suc by (simp add: drop_Suc_nth_Cons)
      have dk': "drop (Suc j) (history h) = history h ! Suc j # drop (Suc (Suc j)) (history h)"
        using k(2) Suc by (simp add: drop_Suc_nth_Cons)
      have nj: "nat (int (Suc j) - 1) = j" "nat (1 + int j) = Suc j" by simp_all
      show ?thesis
        using k Suc False by (simp add: undo_log_def hist_undo_def hist_abs_def tk dk dk' nj)
    qed
  qed
  with inv show ?thesis by (simp add: undo_log_inv)
qed

theorem hist_abs_undo_witness:
  "hist_inv \<lparr>history = [1::int, 2, 3], historyStep = 1\<rparr> \<and>
   hist_abs (undo_log \<lparr>history = [1::int, 2, 3], historyStep = 1\<rparr>) = Some ([], 1, [2, 3])"
  using hist_abs_undo [of "\<lparr>history = [1::int, 2, 3], historyStep = 1\<rparr>"]
  by (simp add: hist_inv_def hist_abs_def MAX_HISTORY_def)

text \<open>C12: redo on the log refines the abstract redo: the nearest future entry becomes the present; with no future it is a no-op.\<close>

theorem hist_abs_redo: "hist_inv h \<Longrightarrow> hist_abs (redo_log h) = z_redo (hist_abs h)"
proof (cases "history h = []")
  case True
  then show ?thesis by (simp add: redo_log_def hist_redo_def hist_abs_def split: option.splits)
next
  case False
  assume inv: "hist_inv h"
  then obtain k where k: "historyStep h = int k" "k < length (history h)"
    using False by (rule hist_inv_cursor)
  show ?thesis
  proof (cases "Suc k < length (history h)")
    case True
    have tk: "take (Suc k) (history h) = take k (history h) @ [history h ! k]"
      using k(2) by (simp add: take_Suc_nth_snoc)
    have dk: "drop (Suc k) (history h) = history h ! Suc k # drop (Suc (Suc k)) (history h)"
      using True by (simp add: drop_Suc_nth_Cons)
    have nk: "nat (int k + 1) = Suc k" by simp
    show ?thesis
      using k True False by (simp add: redo_log_def hist_redo_def hist_abs_def tk dk nk)
  next
    case False
    with k \<open>history h \<noteq> []\<close> show ?thesis
      by (simp add: redo_log_def hist_redo_def hist_abs_def)
  qed
qed

theorem hist_abs_redo_witness:
  "hist_inv \<lparr>history = [1::int, 2, 3], historyStep = 1\<rparr> \<and>
   hist_abs (redo_log \<lparr>history = [1::int, 2, 3], historyStep = 1\<rparr>) = Some ([1, 2], 3, [])"
  using hist_abs_redo [of "\<lparr>history = [1::int, 2, 3], historyStep = 1\<rparr>"]
  by (simp add: hist_inv_def hist_abs_def MAX_HISTORY_def)

subsection \<open>Functional behaviour of the log\<close>

text \<open>C14: after a save the cursor indexes the snapshot just saved, also when the save evicts the oldest entry (the cursor then stays put while the entries shift).\<close>

theorem save_hist_at: "hist_inv h \<Longrightarrow> hist_at (save_hist x h) = Some x"
  using length_take_step [of h]
  by (auto simp: save_hist_eq hist_at_def hist_inv_def Let_def MAX_HISTORY_def nth_append
           split: if_splits)

theorem save_hist_at_witness:
  "hist_inv \<lparr>history = [1::int, 2, 3], historyStep = 1\<rparr> \<and>
   hist_at (save_hist 7 \<lparr>history = [1::int, 2, 3], historyStep = 1\<rparr>) = Some 7"
  using save_hist_at [of "\<lparr>history = [1::int, 2, 3], historyStep = 1\<rparr>" 7]
  by (simp add: hist_inv_def MAX_HISTORY_def)

text \<open>C15: redo right after an enabled undo restores the log exactly.\<close>

theorem redo_after_undo: "hist_inv h \<Longrightarrow> hist_undo h = Some h' \<Longrightarrow> hist_redo h' = Some h"
  by (auto simp: hist_undo_def hist_redo_def hist_inv_def split: if_splits)

theorem redo_after_undo_witness:
  "hist_inv \<lparr>history = [1::int, 2, 3], historyStep = 1\<rparr> \<and>
   hist_undo \<lparr>history = [1::int, 2, 3], historyStep = 1\<rparr> = Some \<lparr>history = [1, 2, 3], historyStep = 0\<rparr> \<and>
   hist_redo \<lparr>history = [1::int, 2, 3], historyStep = 0\<rparr> = Some \<lparr>history = [1, 2, 3], historyStep = 1\<rparr>"
  using redo_after_undo [of "\<lparr>history = [1::int, 2, 3], historyStep = 1\<rparr>"
                           "\<lparr>history = [1, 2, 3], historyStep = 0\<rparr>"]
  by (simp add: hist_inv_def hist_undo_def MAX_HISTORY_def)

text \<open>C16: a save discards every redo entry: redo is disabled right after it, whatever undos came before.\<close>

theorem redo_after_save: "hist_inv h \<Longrightarrow> hist_redo (save_hist x h) = None"
  using length_take_step [of h]
  by (auto simp: save_hist_eq hist_redo_def hist_inv_def Let_def MAX_HISTORY_def split: if_splits)

theorem redo_after_save_witness:
  "hist_inv \<lparr>history = [1::int, 2, 3], historyStep = 0\<rparr> \<and>
   hist_redo (save_hist 7 \<lparr>history = [1::int, 2, 3], historyStep = 0\<rparr>) = None"
  using redo_after_save [of "\<lparr>history = [1::int, 2, 3], historyStep = 0\<rparr>" 7]
  by (simp add: hist_inv_def MAX_HISTORY_def)

subsection \<open>Runs of saves and undos: the capacity bound\<close>

lemma save_hist_at_end:
  assumes "history h \<noteq> []" "historyStep h = int (length (history h)) - 1"
    "length (history h) < MAX_HISTORY"
  shows "save_hist x h = \<lparr>history = history h @ [x], historyStep = int (length (history h))\<rparr>"
  using assms by (simp add: save_hist_def Let_def)

lemma fold_save_hist:
  assumes "history h \<noteq> []" "historyStep h = int (length (history h)) - 1"
    "length (history h) + length xs \<le> MAX_HISTORY"
  shows "fold save_hist xs h =
           \<lparr>history = history h @ xs, historyStep = int (length (history h) + length xs) - 1\<rparr>"
  using assms
proof (induction xs arbitrary: h)
  case Nil
  then show ?case by simp
next
  case (Cons x xs)
  have "save_hist x h = \<lparr>history = history h @ [x], historyStep = int (length (history h))\<rparr>"
    using Cons.prems by (intro save_hist_at_end) auto
  moreover have "fold save_hist xs (save_hist x h) =
      \<lparr>history = history (save_hist x h) @ xs,
         historyStep = int (length (history (save_hist x h)) + length xs) - 1\<rparr>"
    using Cons.prems calculation by (intro Cons.IH) auto
  ultimately show ?case by simp
qed

lemma undo_log_pow:
  "n \<le> m \<Longrightarrow> historyStep h = int m \<Longrightarrow>
   (undo_log ^^ n) h = h\<lparr>historyStep := int (m - n)\<rparr>"
proof (induction n)
  case 0
  then show ?case by simp
next
  case (Suc n)
  then have "(undo_log ^^ Suc n) h = undo_log (h\<lparr>historyStep := int (m - n)\<rparr>)" by simp
  also have "\<dots> = h\<lparr>historyStep := int (m - Suc n)\<rparr>"
    using Suc.prems by (simp add: undo_log_def hist_undo_def of_nat_diff)
  finally show ?case .
qed

text \<open>C17: starting from a log holding one snapshot, fewer than MAX_HISTORY saves followed by as many undos bring the cursor back to that first snapshot.\<close>

theorem undo_all_saves_restores_start:
  assumes "length xs < MAX_HISTORY"
  shows "hist_at ((undo_log ^^ length xs)
            (fold save_hist xs \<lparr>history = [x0], historyStep = 0\<rparr>)) = Some x0"
proof -
  let ?h0 = "\<lparr>history = [x0], historyStep = 0\<rparr>"
  have "fold save_hist xs ?h0 = \<lparr>history = x0 # xs, historyStep = int (length xs)\<rparr>"
    using fold_save_hist [of ?h0 xs] assms by simp
  then show ?thesis
    by (simp add: undo_log_pow [of "length xs" "length xs"] hist_at_def)
qed

theorem undo_all_saves_restores_start_witness:
  "length [1::int, 2, 3] < MAX_HISTORY \<and>
   hist_at ((undo_log ^^ length [1::int, 2, 3])
     (fold save_hist [1::int, 2, 3] \<lparr>history = [0], historyStep = 0\<rparr>)) = Some 0"
proof -
  have h: "length [1::int, 2, 3] < MAX_HISTORY" by (simp add: MAX_HISTORY_def)
  show ?thesis using h undo_all_saves_restores_start [OF h, of 0] by blast
qed

text \<open>C18: MAX_HISTORY saves after the first snapshot evict it: the log then holds only the saved snapshots, so no sequence of undos returns to the first one.\<close>

theorem capacity_evicts_start:
  assumes "length xs = MAX_HISTORY"
  shows "history (fold save_hist xs \<lparr>history = [x0], historyStep = 0\<rparr>) = xs"
proof -
  let ?h0 = "\<lparr>history = [x0], historyStep = 0\<rparr>"
  obtain ys y where xs: "xs = ys @ [y]"
    using assms by (cases xs rule: rev_cases) (auto simp: MAX_HISTORY_def)
  have "fold save_hist ys ?h0 = \<lparr>history = x0 # ys, historyStep = int (length ys)\<rparr>"
    using fold_save_hist [of ?h0 ys] assms xs by simp
  then show ?thesis
    using assms xs by (simp add: save_hist_def)
qed

theorem capacity_evicts_start_witness:
  "length [1..50] = MAX_HISTORY \<and>
   history (fold save_hist [1..50] \<lparr>history = [0::int], historyStep = 0\<rparr>) = [1..50]"
  using capacity_evicts_start [of "[1..50]" "0::int"]
  by (simp add: MAX_HISTORY_def)

end
