(* ===== verification/Scene.thy ===== *)
theory Scene
  imports Prelude
begin

text \<open>
  The part of Konva's scene graph that \<^verbatim>\<open>src/script.js\<close> relies on, and
  the loop of \<^verbatim>\<open>undo\<close>/\<^verbatim>\<open>redo\<close> that destroys the overlay parts
  while it iterates over \<^verbatim>\<open>layer.children\<close> (lines 98--102, 119--123).
  A Konva image is a record of the attributes the code reads and writes; a
  child of the layer is the transformer or an image, named by its index in
  the store of all images created (theory \<open>Editor\<close>).
  \<^verbatim>\<open>Array.prototype.forEach\<close> fixes the length of the array when it starts
  and visits index \<open>k\<close> only while \<open>k\<close> is still an index of the
  array; Konva's \<^verbatim>\<open>Node.destroy\<close> removes the node from
  \<^verbatim>\<open>parent.children\<close> in place (\<open>splice1\<close>).  Destroying during the
  iteration therefore skips the element after each destroyed one:
  \<open>foreach_destroy\<close> is that loop, \<open>skip_destroy\<close> a recursive
  reference for it, and the lemmas below say exactly which children survive.
\<close>

record part_attrs =
  ax :: num
  ay :: num
  awidth :: num
  aheight :: num
  aoffsetX :: num
  aoffsetY :: num
  arotation :: num
  ascaleX :: num
  ascaleY :: num

text \<open>Konva's defaults for the attributes a new \<^verbatim>\<open>Konva.Image\<close> has before
  \<^verbatim>\<open>setAttrs\<close>.\<close>

definition default_attrs :: part_attrs where
  "default_attrs = \<lparr>ax = 0, ay = 0, awidth = 0, aheight = 0, aoffsetX = 0, aoffsetY = 0,
                    arotation = 0, ascaleX = 1, ascaleY = 1\<rparr>"

record kimage =
  img_src :: string
  attrs :: part_attrs
  draggable :: bool
  listening :: bool

datatype node = Transformer | Image nat

text \<open>Konva's \<^verbatim>\<open>Container.add\<close> for a node without a parent appends it to
  \<^verbatim>\<open>children\<close>; \<^verbatim>\<open>moveToTop\<close> and \<^verbatim>\<open>moveToBottom\<close> move a child to
  the end and to the front of its parent's array.\<close>

definition layer_add :: "node \<Rightarrow> node list \<Rightarrow> node list" where
  "layer_add c cs = cs @ [c]"

definition move_to_top :: "node \<Rightarrow> node list \<Rightarrow> node list" where
  "move_to_top c cs = remove1 c cs @ [c]"

definition move_to_bottom :: "node \<Rightarrow> node list \<Rightarrow> node list" where
  "move_to_bottom c cs = c # remove1 c cs"

subsection \<open>Destroying children while iterating with forEach\<close>

function foreach_destroy :: "('a \<Rightarrow> bool) \<Rightarrow> nat \<Rightarrow> nat \<Rightarrow> 'a list \<Rightarrow> 'a list" where
  "foreach_destroy p k len xs =
     (if k < len then
        (if k < length xs \<and> p (xs ! k)
         then foreach_destroy p (Suc k) len (splice1 k xs)
         else foreach_destroy p (Suc k) len xs)
      else xs)"
  by pat_completeness auto
termination
  by (relation "measure (\<lambda>(p, k, len, xs). len - k)") auto

declare foreach_destroy.simps [simp del]

definition destroy_each :: "('a \<Rightarrow> bool) \<Rightarrow> 'a list \<Rightarrow> 'a list" where
  "destroy_each p xs = foreach_destroy p 0 (length xs) xs"

fun skip_destroy :: "('a \<Rightarrow> bool) \<Rightarrow> 'a list \<Rightarrow> 'a list" where
  "skip_destroy p [] = []"
| "skip_destroy p [x] = (if p x then [] else [x])"
| "skip_destroy p (x # y # zs) =
     (if p x then y # skip_destroy p zs else x # skip_destroy p (y # zs))"

fun no_adjacent :: "('a \<Rightarrow> bool) \<Rightarrow> 'a list \<Rightarrow> bool" where
  "no_adjacent p (x # y # zs) = (\<not> (p x \<and> p y) \<and> no_adjacent p (y # zs))"
| "no_adjacent p _ = True"

subsection \<open>Children after add and move\<close>

lemma insert_set_remove1: "x \<in> set xs \<Longrightarrow> insert x (set (remove1 x xs)) = set xs"
  by (induction xs) auto

lemma set_layer_add [simp]: "set (layer_add c cs) = insert c (set cs)"
  by (simp add: layer_add_def)

lemma set_move_to_top [simp]: "c \<in> set cs \<Longrightarrow> set (move_to_top c cs) = set cs"
  using insert_set_remove1 [of c cs] by (auto simp: move_to_top_def)

lemma set_move_to_bottom [simp]: "c \<in> set cs \<Longrightarrow> set (move_to_bottom c cs) = set cs"
  using insert_set_remove1 [of c cs] by (simp add: move_to_bottom_def)

subsection \<open>Which children survive the loop\<close>

lemma foreach_destroy_beyond: "length xs \<le> k \<Longrightarrow> foreach_destroy p k len xs = xs"
proof (induction p k len xs rule: foreach_destroy.induct)
  case (1 p k len xs)
  then show ?case by (simp add: foreach_destroy.simps [of p k len xs])
qed

text \<open>The loop from index \<open>k\<close> leaves the first \<open>k\<close> children alone and
  behaves as \<open>skip_destroy\<close> on the rest, as long as the length fixed at the
  start covers the array.\<close>

lemma foreach_destroy_skip:
  "length ys = k \<Longrightarrow> k + length zs \<le> len \<Longrightarrow>
   foreach_destroy p k len (ys @ zs) = ys @ skip_destroy p zs"
proof (induction p zs arbitrary: ys k rule: skip_destroy.induct)
  case (1 p)
  then show ?case by (simp add: foreach_destroy_beyond)
next
  case (2 p x)
  then show ?case
    by (simp add: foreach_destroy.simps [of p k len] foreach_destroy_beyond nth_append)
next
  case (3 p x y zs)
  show ?case
  proof (cases "p x")
    case True
    have "foreach_destroy p (Suc k) len ((ys @ [y]) @ zs) = (ys @ [y]) @ skip_destroy p zs"
      using "3.prems" True by (intro "3.IH"(1)) auto
    with "3.prems" True show ?thesis
      by (simp add: foreach_destroy.simps [of p k len] nth_append)
  next
    case False
    have "foreach_destroy p (Suc k) len ((ys @ [x]) @ y # zs) = (ys @ [x]) @ skip_destroy p (y # zs)"
      using "3.prems" False by (intro "3.IH"(2)) auto
    with "3.prems" False show ?thesis
      by (simp add: foreach_destroy.simps [of p k len] nth_append)
  qed
qed

lemma skip_destroy_keeps_others: "filter (Not \<circ> p) (skip_destroy p xs) = filter (Not \<circ> p) xs"
  by (induction p xs rule: skip_destroy.induct) auto

lemma set_skip_destroy: "set (skip_destroy p xs) \<subseteq> set xs"
  by (induction p xs rule: skip_destroy.induct) auto

lemma skip_destroy_append_others:
  "\<not> list_ex p ys \<Longrightarrow> skip_destroy p (ys @ zs) = ys @ skip_destroy p zs"
proof (induction ys)
  case Nil
  then show ?case by simp
next
  case (Cons y ys)
  then show ?case by (cases ys; cases zs) auto
qed

lemma no_adjacent_tl: "no_adjacent p (y # zs) \<Longrightarrow> no_adjacent p zs"
  by (cases zs) auto

lemma set_destroy_each: "set (destroy_each p xs) \<subseteq> set xs"
  using foreach_destroy_skip [of "[]" 0 xs "length xs" p] set_skip_destroy [of p xs]
  by (simp add: destroy_each_def)

lemma destroy_each_keeps:
  assumes "x \<in> set xs" "\<not> p x"
  shows "x \<in> set (destroy_each p xs)"
proof -
  have "x \<in> set (filter (Not \<circ> p) xs)" using assms by simp
  then have "x \<in> set (filter (Not \<circ> p) (skip_destroy p xs))"
    by (simp only: skip_destroy_keeps_others)
  then show ?thesis
    using foreach_destroy_skip [of "[]" 0 xs "length xs" p] by (simp add: destroy_each_def)
qed

lemma length_skip_destroy_all: "list_all p xs \<Longrightarrow> length (skip_destroy p xs) = length xs div 2"
  by (induction p xs rule: skip_destroy.induct) auto

text \<open>C4: the forEach loop with in-place destruction computes \<open>skip_destroy\<close>.\<close>

theorem destroy_each_eq: "destroy_each p xs = skip_destroy p xs"
  using foreach_destroy_skip [of "[]" 0 xs "length xs" p] by (simp add: destroy_each_def)

lemma skip_destroy_filter: "no_adjacent p xs \<Longrightarrow> skip_destroy p xs = filter (Not \<circ> p) xs"
  by (induction p xs rule: skip_destroy.induct) (auto dest: no_adjacent_tl)

text \<open>C5: where no two targeted children are adjacent, the loop destroys
  every targeted child and keeps the others in order, as intended.\<close>

theorem destroy_each_filter: "no_adjacent p xs \<Longrightarrow> destroy_each p xs = filter (Not \<circ> p) xs"
  using foreach_destroy_skip [of "[]" 0 xs "length xs" p] skip_destroy_filter [of p xs]
  by (simp add: destroy_each_def)

theorem destroy_each_filter_witness:
  "no_adjacent even [1::nat, 2, 3, 4] \<and> destroy_each even [1::nat, 2, 3, 4] = [1, 3]"
  using destroy_each_filter [of even "[1::nat, 2, 3, 4]"] by simp

end
