(* ===== verification/Layout.thy ===== *)
theory Layout
  imports Scene
begin

text \<open>
  The sizes \<^verbatim>\<open>src/script.js\<close> computes once from the window
  (lines 3--18), the base image's placement (lines 186--190), the size of a
  dropped part (lines 275--276) and the transformer's \<^verbatim>\<open>boundBoxFunc\<close>
  (lines 36--41).  Window sizes are integers (CSS pixels).  The products
  with \<open>0.92\<close> and \<open>0.82\<close> are exact rationals here.  The script's
  double-precision product can land just below an integer where the exact
  one is that integer (\<open>300 * 0.82\<close> is \<open>245.99999999999997\<close> in
  doubles), so for a stage side of 150 or 300 pixels \<^verbatim>\<open>Math.floor\<close> gives
  one pixel less than \<open>compute_layout\<close>.  No property below depends on
  such a size.
\<close>

record layout =
  stageWidth :: int
  stageHeight :: int
  PUMPKIN_WIDTH :: int
  PUMPKIN_HEIGHT :: int

definition compute_layout :: "int \<Rightarrow> int \<Rightarrow> layout" where
  "compute_layout innerWidth innerHeight =
     (let headerHeight = 70; footerHeight = 70; toolboxWidth = 180; padding = 32;
          toolsPanelHeight = 60; gap = 16;
          availableHeight = innerHeight - headerHeight - footerHeight - toolsPanelHeight
                            - padding - gap;
          availableWidth = innerWidth - toolboxWidth - padding - gap;
          maxSize = min availableWidth availableHeight;
          sw = \<lfloor>min 520 (of_int maxSize :: num)\<rfloor>;
          sh = \<lfloor>min 480 (of_int maxSize * (0.92 :: num))\<rfloor>
      in \<lparr>stageWidth = sw, stageHeight = sh,
          PUMPKIN_WIDTH = \<lfloor>of_int sw * (0.82 :: num)\<rfloor>,
          PUMPKIN_HEIGHT = \<lfloor>of_int sh * (0.82 :: num)\<rfloor>\<rparr>)"

text \<open>The attributes \<^verbatim>\<open>loadPumpkin\<close> gives the base image.\<close>

definition pumpkin_attrs :: "layout \<Rightarrow> part_attrs" where
  "pumpkin_attrs L =
     default_attrs\<lparr>ax := of_int (stageWidth L - PUMPKIN_WIDTH L) / 2,
                   ay := of_int (stageHeight L - PUMPKIN_HEIGHT L) / 2,
                   awidth := of_int (PUMPKIN_WIDTH L), aheight := of_int (PUMPKIN_HEIGHT L)\<rparr>"

text \<open>\<^verbatim>\<open>parseFloat(defaultSize) || 80\<close>: the argument is what
  \<^verbatim>\<open>parseFloat\<close> returns, \<open>None\<close> for \<^verbatim>\<open>NaN\<close>; both \<^verbatim>\<open>NaN\<close>
  and \<open>0\<close> are falsy.\<close>

definition size_ratio :: "num option \<Rightarrow> num" where
  "size_ratio v = (case v of None \<Rightarrow> 80 | Some r \<Rightarrow> if r = 0 then 80 else r)"

definition target_size :: "int \<Rightarrow> num option \<Rightarrow> num" where
  "target_size pw v = max 40 (min 150 (size_ratio v * (of_int pw / 600)))"

record box =
  box_x :: num
  box_y :: num
  box_width :: num
  box_height :: num
  box_rotation :: num

definition boundBoxFunc :: "box \<Rightarrow> box \<Rightarrow> box" where
  "boundBoxFunc oldBox newBox =
     (if box_width newBox < 20 \<or> box_height newBox < 20 then oldBox else newBox)"

text \<open>A resize gesture: Konva offers each proposed box to \<^verbatim>\<open>boundBoxFunc\<close>
  together with the box it currently has.\<close>

definition transform_gesture :: "box \<Rightarrow> box list \<Rightarrow> box" where
  "transform_gesture b proposals = fold (\<lambda>newBox oldBox. boundBoxFunc oldBox newBox) proposals b"

subsection \<open>Bounds of the layout\<close>

lemma floor_scaled_bounds:
  fixes s :: int and c :: num
  assumes "0 \<le> s" "0 \<le> c" "c \<le> 1"
  shows "0 \<le> \<lfloor>of_int s * c\<rfloor> \<and> \<lfloor>of_int s * c\<rfloor> \<le> s"
proof -
  have "0 \<le> of_int s * c" using assms by simp
  moreover have "of_int s * c \<le> of_int s" using assms by (simp add: mult_left_le)
  ultimately show ?thesis by (simp add: floor_le_iff le_floor_iff)
qed

lemma compute_layout_stage:
  "stageWidth (compute_layout w h) = min 520 (min (w - 228) (h - 248)) \<and>
   stageHeight (compute_layout w h) = \<lfloor>min 480 (of_int (min (w - 228) (h - 248)) * (0.92 :: num))\<rfloor>"
proof -
  have "\<lfloor>min 520 (of_int m :: num)\<rfloor> = min 520 m" for m :: int
    by (cases "m \<le> 520") (simp_all add: min_def)
  then show ?thesis by (simp add: compute_layout_def Let_def)
qed

lemma compute_layout_pumpkin:
  "PUMPKIN_WIDTH (compute_layout w h) = \<lfloor>of_int (stageWidth (compute_layout w h)) * (0.82 :: num)\<rfloor> \<and>
   PUMPKIN_HEIGHT (compute_layout w h) = \<lfloor>of_int (stageHeight (compute_layout w h)) * (0.82 :: num)\<rfloor>"
  by (simp add: compute_layout_def Let_def)

text \<open>The stage is never wider than 520 and never taller than 480 pixels, whatever the window size.\<close>

theorem layout_stage_bounds:
  "stageWidth (compute_layout w h) \<le> 520 \<and> stageHeight (compute_layout w h) \<le> 480"
  by (simp add: compute_layout_stage floor_le_iff)

lemma stage_nonneg:
  assumes "228 \<le> w" "248 \<le> h"
  shows "0 \<le> stageWidth (compute_layout w h) \<and> 0 \<le> stageHeight (compute_layout w h)"
  using assms by (simp add: compute_layout_stage le_floor_iff)

text \<open>C29: in a window large enough for a stage of non-negative size (at least 228 by 248 pixels), the base image lies inside the stage.\<close>

theorem base_image_in_stage:
  assumes "228 \<le> w" "248 \<le> h"
  shows "0 \<le> ax (pumpkin_attrs (compute_layout w h)) \<and>
         ax (pumpkin_attrs (compute_layout w h)) + awidth (pumpkin_attrs (compute_layout w h))
           \<le> of_int (stageWidth (compute_layout w h)) \<and>
         0 \<le> ay (pumpkin_attrs (compute_layout w h)) \<and>
         ay (pumpkin_attrs (compute_layout w h)) + aheight (pumpkin_attrs (compute_layout w h))
           \<le> of_int (stageHeight (compute_layout w h))"
proof -
  let ?L = "compute_layout w h"
  have s: "0 \<le> stageWidth ?L" "0 \<le> stageHeight ?L" using stage_nonneg [OF assms] by auto
  have pw: "0 \<le> PUMPKIN_WIDTH ?L \<and> PUMPKIN_WIDTH ?L \<le> stageWidth ?L"
    using floor_scaled_bounds [OF s(1), of "0.82"] by (simp add: compute_layout_pumpkin)
  have ph: "0 \<le> PUMPKIN_HEIGHT ?L \<and> PUMPKIN_HEIGHT ?L \<le> stageHeight ?L"
    using floor_scaled_bounds [OF s(2), of "0.82"] by (simp add: compute_layout_pumpkin)
  show ?thesis using pw ph
    by (simp add: pumpkin_attrs_def default_attrs_def field_simps)
qed

text \<open>The clamp of \<^verbatim>\<open>addPartToCanvas\<close> keeps every target size between 40
  and 150 pixels.\<close>

lemma target_size_bounds: "40 \<le> target_size pw v \<and> target_size pw v \<le> 150"
  by (simp add: target_size_def)

text \<open>C30: a resize gesture through boundBoxFunc never takes a box of at least 20 by 20 pixels below that size.\<close>

theorem gesture_keeps_min_size:
  "20 \<le> box_width b \<and> 20 \<le> box_height b \<Longrightarrow>
   20 \<le> box_width (transform_gesture b ps) \<and> 20 \<le> box_height (transform_gesture b ps)"
proof (induction ps arbitrary: b)
  case Nil
  then show ?case by (simp add: transform_gesture_def)
next
  case (Cons p ps)
  have "20 \<le> box_width (boundBoxFunc b p) \<and> 20 \<le> box_height (boundBoxFunc b p)"
    using Cons.prems by (simp add: boundBoxFunc_def)
  then have "20 \<le> box_width (transform_gesture (boundBoxFunc b p) ps) \<and>
             20 \<le> box_height (transform_gesture (boundBoxFunc b p) ps)"
    by (rule Cons.IH)
  then show ?case by (simp add: transform_gesture_def)
qed


theorem base_image_in_stage_witness:
  "228 \<le> (1920::int) \<and> 248 \<le> (1080::int) \<and>
   0 \<le> ax (pumpkin_attrs (compute_layout 1920 1080)) \<and>
   ax (pumpkin_attrs (compute_layout 1920 1080)) + awidth (pumpkin_attrs (compute_layout 1920 1080))
     \<le> of_int (stageWidth (compute_layout 1920 1080)) \<and>
   0 \<le> ay (pumpkin_attrs (compute_layout 1920 1080)) \<and>
   ay (pumpkin_attrs (compute_layout 1920 1080)) + aheight (pumpkin_attrs (compute_layout 1920 1080))
     \<le> of_int (stageHeight (compute_layout 1920 1080))"
  using base_image_in_stage [of 1920 1080] by simp

theorem gesture_keeps_min_size_witness:
  "20 \<le> box_width \<lparr>box_x = 0, box_y = 0, box_width = 50, box_height = 50, box_rotation = 0\<rparr> \<and>
   20 \<le> box_height \<lparr>box_x = 0, box_y = 0, box_width = 50, box_height = 50, box_rotation = 0\<rparr> \<and>
   transform_gesture \<lparr>box_x = 0, box_y = 0, box_width = 50, box_height = 50, box_rotation = 0\<rparr>
     [\<lparr>box_x = 0, box_y = 0, box_width = 10, box_height = 60, box_rotation = 0\<rparr>] =
     \<lparr>box_x = 0, box_y = 0, box_width = 50, box_height = 50, box_rotation = 0\<rparr> \<and>
   20 \<le> box_width (transform_gesture \<lparr>box_x = 0, box_y = 0, box_width = 50, box_height = 50, box_rotation = 0\<rparr>
     [\<lparr>box_x = 0, box_y = 0, box_width = 10, box_height = 60, box_rotation = 0\<rparr>])"
  using gesture_keeps_min_size [of "\<lparr>box_x = 0, box_y = 0, box_width = 50, box_height = 50, box_rotation = 0\<rparr>"
     "[\<lparr>box_x = 0, box_y = 0, box_width = 10, box_height = 60, box_rotation = 0\<rparr>]"]
  by (simp add: transform_gesture_def boundBoxFunc_def)

text \<open>C31: the layout has no lower bound: the stage is narrower than
  nothing exactly when the window is narrower than 228 or lower than 248
  pixels, and then the stage's height and both sides of the base image are
  negative too.\<close>

theorem small_window_negative_sizes:
  "(w < 228 \<or> h < 248) = (stageWidth (compute_layout w h) < 0) \<and>
   (w < 228 \<or> h < 248 \<longrightarrow>
      stageHeight (compute_layout w h) < 0 \<and> PUMPKIN_WIDTH (compute_layout w h) < 0 \<and>
      PUMPKIN_HEIGHT (compute_layout w h) < 0)"
proof -
  let ?L = "compute_layout w h" and ?m = "min (w - 228) (h - 248)"
  have sw: "stageWidth ?L = min 520 ?m" by (simp add: compute_layout_stage)
  have neg: "stageHeight ?L < 0 \<and> PUMPKIN_WIDTH ?L < 0 \<and> PUMPKIN_HEIGHT ?L < 0"
    if "w < 228 \<or> h < 248"
  proof -
    have m: "?m < 0" using that by auto
    then have "min 480 (of_int ?m * (0.92 :: num)) < 0" by (simp add: mult_less_0_iff)
    then have sh: "stageHeight ?L < 0"
      using m by (simp add: compute_layout_stage floor_less_iff)
    have "stageWidth ?L < 0" using sw m by simp
    with sh show ?thesis
      by (simp add: compute_layout_pumpkin floor_less_iff mult_less_0_iff)
  qed
  have "(w < 228 \<or> h < 248) = (stageWidth ?L < 0)" using sw by auto
  with neg show ?thesis by blast
qed

theorem small_window_negative_sizes_witness:
  "((200::int) < 228 \<or> (200::int) < 248) \<and> stageWidth (compute_layout 200 200) < 0 \<and>
   stageHeight (compute_layout 200 200) < 0 \<and> PUMPKIN_WIDTH (compute_layout 200 200) < 0 \<and>
   PUMPKIN_HEIGHT (compute_layout 200 200) < 0"
  using small_window_negative_sizes [of 200 200] by simp

theorem layout_full_hd:
  "compute_layout 1920 1080 =
     \<lparr>stageWidth = 520, stageHeight = 480, PUMPKIN_WIDTH = 426, PUMPKIN_HEIGHT = 393\<rparr>"
  by (simp add: compute_layout_def)

end
