(* ===== verification/Editor.thy ===== *)
theory Editor
  imports History Layout
begin

text \<open>
  The editor session of \<^verbatim>\<open>src/script.js\<close>: every handler that changes
  state, on one record of the state the page keeps.  Konva's layer is the
  list \<open>layer\<close> of its children (the transformer and images named by their
  index in \<open>images\<close>, the store of every \<^verbatim>\<open>Konva.Image\<close> ever created,
  destroyed ones included, as Konva keeps their attributes); the
  transformer's attached nodes are \<open>selection\<close>; \<open>pending\<close> lists the
  callbacks of \<^verbatim>\<open>Konva.Image.fromURL\<close> whose image has not loaded yet,
  in the order they were registered.  An image load completes or fails as
  an event of its own (\<open>EvLoad\<close>, \<open>EvLoadFail\<close>), in any order and
  interleaved with the user's events, as the browser's event loop allows.
\<close>

record part_data =
  pd_src :: string
  pd_attrs :: part_attrs

type_synonym snapshot = "part_data list"

record asset =
  asset_src :: string
  asset_size :: "num option"

datatype load =
    LoadPumpkin
  | LoadPart string "num \<times> num" "num option"
  | LoadRestore part_data
  | LoadDup nat

record editor =
  layer :: "node list"
  images :: "kimage list"
  pumpkinImage :: "nat option"
  selection :: "nat list"
  hist :: "snapshot hist_log"
  pending :: "load list"
  draggedAsset :: "asset option"
  drag_timers :: nat
  config :: layout
  toolbox :: "asset list"

text \<open>The base image's source is a data URL of an SVG drawn from the layout
  (lines 167--182); its text matters to nothing modelled here.\<close>

definition pumpkin_src :: string where
  "pumpkin_src = ''data:image/svg+xml;base64,''"

definition init_editor :: "layout \<Rightarrow> asset list \<Rightarrow> editor" where
  "init_editor L tb =
     \<lparr>layer = [Transformer], images = [], pumpkinImage = None, selection = [],
      hist = hist_init, pending = [LoadPumpkin], draggedAsset = None, drag_timers = 0, config = L,
      toolbox = tb\<rparr>"

subsection \<open>Snapshots of the scene\<close>

text \<open>\<^verbatim>\<open>child !== pumpkinImage && child instanceof Konva.Image\<close>
  (lines 59, 99, 120; the transformer is no image).\<close>

definition is_part :: "editor \<Rightarrow> node \<Rightarrow> bool" where
  "is_part s c = (case c of Transformer \<Rightarrow> False | Image n \<Rightarrow> pumpkinImage s \<noteq> Some n)"

definition serialize :: "editor \<Rightarrow> snapshot" where
  "serialize s =
     [\<lparr>pd_src = img_src (images s ! n), pd_attrs = attrs (images s ! n)\<rparr>.
        Image n \<leftarrow> filter (is_part s) (layer s)]"

definition saveState :: "editor \<Rightarrow> editor" where
  "saveState s = s\<lparr>hist := save_hist (serialize s) (hist s)\<rparr>"

definition restoreParts :: "snapshot \<Rightarrow> editor \<Rightarrow> editor" where
  "restoreParts snap s = s\<lparr>pending := pending s @ [LoadRestore pd. pd \<leftarrow> snap, pd_src pd \<noteq> []]\<rparr>"

definition undo :: "editor \<Rightarrow> editor" where
  "undo s =
     (case hist_undo (hist s) of
        None \<Rightarrow> s
      | Some h \<Rightarrow>
          let s1 = s\<lparr>hist := h, layer := destroy_each (is_part s) (layer s)\<rparr>;
              s2 = (case hist_at h of Some snap \<Rightarrow> restoreParts snap s1 | None \<Rightarrow> s1)
          in s2\<lparr>selection := []\<rparr>)"

definition redo :: "editor \<Rightarrow> editor" where
  "redo s =
     (case hist_redo (hist s) of
        None \<Rightarrow> s
      | Some h \<Rightarrow>
          let s1 = s\<lparr>hist := h, layer := destroy_each (is_part s) (layer s)\<rparr>;
              s2 = (case hist_at h of Some snap \<Rightarrow> restoreParts snap s1 | None \<Rightarrow> s1)
          in s2\<lparr>selection := []\<rparr>)"

subsection \<open>Image loads\<close>

definition new_image :: "kimage \<Rightarrow> editor \<Rightarrow> editor \<times> nat" where
  "new_image img s = (s\<lparr>images := images s @ [img]\<rparr>, length (images s))"

definition part_image :: "string \<Rightarrow> part_attrs \<Rightarrow> kimage" where
  "part_image src a = \<lparr>img_src = src, attrs = a, draggable = True, listening = True\<rparr>"

text \<open>The callbacks of \<^verbatim>\<open>Konva.Image.fromURL\<close>: \<^verbatim>\<open>loadPumpkin\<close>
  (lines 184--201), \<^verbatim>\<open>addPartToCanvas\<close> (273--296), \<^verbatim>\<open>restoreParts\<close>
  (141--148) and \<^verbatim>\<open>duplicateSelected\<close> (363--376).  The part's
  \<^verbatim>\<open>moveToTop\<close> in \<^verbatim>\<open>addPartToCanvas\<close> runs before \<^verbatim>\<open>layer.add\<close>,
  on an image without a parent, and does nothing.\<close>

definition pumpkin_loaded :: "editor \<Rightarrow> editor" where
  "pumpkin_loaded s =
     (let (s1, n) = new_image \<lparr>img_src = pumpkin_src, attrs = pumpkin_attrs (config s),
                                draggable = False, listening = False\<rparr> s;
          s2 = s1\<lparr>pumpkinImage := Some n,
                  layer := move_to_bottom (Image n) (layer_add (Image n) (layer s1))\<rparr>
      in if history (hist s2) = [] then saveState s2 else s2)"

definition part_loaded :: "string \<Rightarrow> num \<times> num \<Rightarrow> num option \<Rightarrow> editor \<Rightarrow> editor" where
  "part_loaded src pos sz s =
     (let t = target_size (PUMPKIN_WIDTH (config s)) sz;
          (s1, n) = new_image (part_image src
             (default_attrs\<lparr>ax := fst pos, ay := snd pos, awidth := t, aheight := t,
                            aoffsetX := t / 2, aoffsetY := t / 2\<rparr>)) s
      in saveState (s1\<lparr>layer := layer_add (Image n) (layer s1)\<rparr>))"

definition restore_loaded :: "part_data \<Rightarrow> editor \<Rightarrow> editor" where
  "restore_loaded pd s =
     (let (s1, n) = new_image (part_image (pd_src pd) (pd_attrs pd)) s
      in s1\<lparr>layer := move_to_top (Image n) (layer_add (Image n) (layer s1))\<rparr>)"

definition dup_loaded :: "nat \<Rightarrow> editor \<Rightarrow> editor" where
  "dup_loaded m s =
     (let a = attrs (images s ! m);
          (s1, n) = new_image (part_image (img_src (images s ! m))
             (default_attrs\<lparr>ax := ax a + 30, ay := ay a + 30, awidth := awidth a,
                            aheight := aheight a, aoffsetX := aoffsetX a,
                            aoffsetY := aoffsetY a, arotation := arotation a\<rparr>)) s
      in s1\<lparr>layer := move_to_top (Image n) (layer_add (Image n) (layer s1))\<rparr>)"

text \<open>The image of a pending load has arrived: its callback runs.\<close>

fun complete_load :: "load \<Rightarrow> editor \<Rightarrow> editor" where
  "complete_load LoadPumpkin s = pumpkin_loaded s"
| "complete_load (LoadPart src pos sz) s = part_loaded src pos sz s"
| "complete_load (LoadRestore pd) s = restore_loaded pd s"
| "complete_load (LoadDup m) s = dup_loaded m s"

definition addPartToCanvas :: "string \<Rightarrow> num \<times> num \<Rightarrow> num option \<Rightarrow> editor \<Rightarrow> editor" where
  "addPartToCanvas src pos sz s = s\<lparr>pending := pending s @ [LoadPart src pos sz]\<rparr>"

subsection \<open>User handlers\<close>

datatype click_target = ClickStage | ClickTransformer | ClickAnchor | ClickImage nat

text \<open>The stage's \<^verbatim>\<open>click tap\<close> handler (lines 300--311); an anchor is a
  shape whose parent is the transformer.\<close>

definition click :: "click_target \<Rightarrow> editor \<Rightarrow> editor" where
  "click t s =
     (case t of
        ClickStage \<Rightarrow> s\<lparr>selection := []\<rparr>
      | ClickImage n \<Rightarrow> if pumpkinImage s = Some n then s\<lparr>selection := []\<rparr> else s\<lparr>selection := [n]\<rparr>
      | ClickTransformer \<Rightarrow> s
      | ClickAnchor \<Rightarrow> s)"

definition set_attrs :: "nat \<Rightarrow> part_attrs \<Rightarrow> editor \<Rightarrow> editor" where
  "set_attrs n a s = s\<lparr>images := (images s)[n := (images s ! n)\<lparr>attrs := a\<rparr>]\<rparr>"

text \<open>\<^verbatim>\<open>transformend\<close> and the layer's \<^verbatim>\<open>dragend\<close> (lines 314--321):
  Konva has already written the node's new attributes when the handler
  saves the state.\<close>

definition transformend :: "nat \<Rightarrow> part_attrs \<Rightarrow> editor \<Rightarrow> editor" where
  "transformend n a s = saveState (set_attrs n a s)"

definition dragend :: "nat \<Rightarrow> num \<Rightarrow> num \<Rightarrow> editor \<Rightarrow> editor" where
  "dragend n px py s = saveState (set_attrs n ((attrs (images s ! n))\<lparr>ax := px, ay := py\<rparr>) s)"

definition deleteSelected :: "editor \<Rightarrow> editor" where
  "deleteSelected s =
     (if selection s = [] then s
      else saveState (s\<lparr>layer := fold (\<lambda>n cs. if pumpkinImage s = Some n then cs else remove1 (Image n) cs)
                                      (selection s) (layer s),
                        selection := []\<rparr>))"

definition duplicateSelected :: "editor \<Rightarrow> editor" where
  "duplicateSelected s =
     (if selection s = [] then s
      else saveState (s\<lparr>pending := pending s @ [LoadDup n. n \<leftarrow> selection s, pumpkinImage s \<noteq> Some n],
                        selection := []\<rparr>))"

text \<open>\<^verbatim>\<open>clearAll\<close> (lines 386--392), the argument being the answer to
  \<^verbatim>\<open>confirm\<close>.  \<^verbatim>\<open>destroyChildren\<close> destroys the transformer too, and
  Konva's \<^verbatim>\<open>Transformer.destroy\<close> detaches its nodes.\<close>

definition clearAll :: "bool \<Rightarrow> editor \<Rightarrow> editor" where
  "clearAll confirmed s =
     (if confirmed
      then saveState (s\<lparr>layer := [], selection := [], pending := pending s @ [LoadPumpkin]\<rparr>)
      else s)"

record key_event =
  key :: string
  ctrlKey :: bool
  metaKey :: bool
  shiftKey :: bool
  in_text_field :: bool

definition keydown :: "key_event \<Rightarrow> editor \<Rightarrow> editor" where
  "keydown e s =
     (let s1 = (if (key e = ''Delete'' \<or> key e = ''Backspace'') \<and> selection s \<noteq> [] \<and> \<not> in_text_field e
                then deleteSelected s else s);
          s2 = (if (ctrlKey e \<or> metaKey e) \<and> key e = ''z'' \<and> \<not> shiftKey e then undo s1 else s1)
      in if (ctrlKey e \<or> metaKey e) \<and> (key e = ''y'' \<or> key e = ''z'' \<and> shiftKey e) then redo s2 else s2)"

text \<open>The toolbox assets' \<^verbatim>\<open>dragstart\<close> and \<^verbatim>\<open>dragend\<close> listeners
  (lines 209--222).  \<^verbatim>\<open>dragend\<close> only schedules the reset of
  \<^verbatim>\<open>draggedAsset\<close> with \<^verbatim>\<open>setTimeout(..., 100)\<close>; \<open>drag_timers\<close> counts
  the timers scheduled and not yet fired, and the timer's callback is a
  step of its own.\<close>

definition asset_dragstart :: "asset \<Rightarrow> editor \<Rightarrow> editor" where
  "asset_dragstart a s = s\<lparr>draggedAsset := Some a\<rparr>"

definition asset_dragend :: "editor \<Rightarrow> editor" where
  "asset_dragend s = s\<lparr>drag_timers := Suc (drag_timers s)\<rparr>"

definition drag_timer_fired :: "editor \<Rightarrow> editor" where
  "drag_timer_fired s = s\<lparr>draggedAsset := None, drag_timers := drag_timers s - 1\<rparr>"

declare asset_dragstart_def [simp] asset_dragend_def [simp] drag_timer_fired_def [simp]

text \<open>What a \<^verbatim>\<open>drop\<close> event carries: the data \<^verbatim>\<open>getData('text/html')\<close>
  returns, the drop point relative to the container
  (\<^verbatim>\<open>e.clientX - rect.left\<close>, \<^verbatim>\<open>e.clientY - rect.top\<close>), and the
  pointer position the stage recorded before the event, from the last
  pointer event Konva saw over it (\<open>None\<close> if none).\<close>

record drop_event =
  drop_data :: string
  pointer :: "(num \<times> num) option"
  client_pos :: "num \<times> num"

text \<open>The container's \<^verbatim>\<open>drop\<close> listener (lines 237--269).  With a recorded
  \<^verbatim>\<open>draggedAsset\<close> it first calls \<^verbatim>\<open>stage.setPointersPositions(e)\<close>, so
  the position is the drop point.  Without one it looks the asset up by the
  dropped source and reads \<^verbatim>\<open>stage.getPointerPosition()\<close> without that
  call, so the position is the stage's previous pointer position when it
  has one.\<close>

definition drop_listener :: "drop_event \<Rightarrow> editor \<Rightarrow> editor" where
  "drop_listener e s =
     (case draggedAsset s of
        None \<Rightarrow>
          if drop_data e = [] then s
          else (let pos = (case pointer e of Some p \<Rightarrow> p | None \<Rightarrow> client_pos e)
                in case find (\<lambda>a. asset_src a = drop_data e) (toolbox s) of
                     Some a \<Rightarrow> addPartToCanvas (drop_data e) pos (asset_size a) s
                   | None \<Rightarrow> s)
      | Some a \<Rightarrow> (addPartToCanvas (asset_src a) (client_pos e) (asset_size a) s)\<lparr>draggedAsset := None\<rparr>)"

subsection \<open>Events and runs\<close>

datatype event =
    EvLoad nat
  | EvLoadFail nat
  | EvClick click_target
  | EvTransformEnd nat part_attrs
  | EvDragEnd nat num num
  | EvKey key_event
  | EvDeleteBtn
  | EvDuplicateBtn
  | EvClearBtn bool
  | EvUndoBtn
  | EvRedoBtn
  | EvDownload
  | EvShare
  | EvAssetDragStart asset
  | EvAssetDragEnd
  | EvDragTimer
  | EvDrop drop_event

fun handle :: "event \<Rightarrow> editor \<Rightarrow> editor" where
  "handle (EvLoad i) s = complete_load (pending s ! i) (s\<lparr>pending := splice1 i (pending s)\<rparr>)"
| "handle (EvLoadFail i) s = s\<lparr>pending := splice1 i (pending s)\<rparr>"
| "handle (EvClick t) s = click t s"
| "handle (EvTransformEnd n a) s = transformend n a s"
| "handle (EvDragEnd n px py) s = dragend n px py s"
| "handle (EvKey e) s = keydown e s"
| "handle EvDeleteBtn s = deleteSelected s"
| "handle EvDuplicateBtn s = duplicateSelected s"
| "handle (EvClearBtn c) s = clearAll c s"
| "handle EvUndoBtn s = undo s"
| "handle EvRedoBtn s = redo s"
| "handle EvDownload s = s\<lparr>selection := []\<rparr>"
| "handle EvShare s = s\<lparr>selection := []\<rparr>"
| "handle (EvAssetDragStart a) s = asset_dragstart a s"
| "handle EvAssetDragEnd s = asset_dragend s"
| "handle EvDragTimer s = drag_timer_fired s"
| "handle (EvDrop e) s = drop_listener e s"

text \<open>Which events the browser and Konva can deliver: a load that is
  pending; a click on a listening image of the layer; a transform of an
  attached node while the transformer is on the layer; a drag of a draggable
  image of the layer; an asset from the toolbox.\<close>

fun enabled :: "event \<Rightarrow> editor \<Rightarrow> bool" where
  "enabled (EvLoad i) s = (i < length (pending s))"
| "enabled (EvLoadFail i) s = (i < length (pending s))"
| "enabled (EvClick (ClickImage n)) s = (Image n \<in> set (layer s) \<and> listening (images s ! n))"
| "enabled (EvClick t) s = True"
| "enabled (EvTransformEnd n a) s =
     (n \<in> set (selection s) \<and> Image n \<in> set (layer s) \<and> Transformer \<in> set (layer s))"
| "enabled (EvDragEnd n px py) s = (Image n \<in> set (layer s) \<and> draggable (images s ! n))"
| "enabled (EvAssetDragStart a) s = (a \<in> set (toolbox s))"
| "enabled EvDragTimer s = (0 < drag_timers s)"
| "enabled _ s = True"

fun exec_events :: "event list \<Rightarrow> editor \<Rightarrow> editor option" where
  "exec_events [] s = Some s"
| "exec_events (e # es) s = (if enabled e s then exec_events es (handle e s) else None)"

inductive reachable :: "layout \<Rightarrow> asset list \<Rightarrow> editor \<Rightarrow> bool" for L tb where
  start: "reachable L tb (init_editor L tb)"
| step: "reachable L tb s \<Longrightarrow> enabled e s \<Longrightarrow> reachable L tb (handle e s)"

subsection \<open>Well-formed states\<close>

definition valid_node :: "nat \<Rightarrow> node \<Rightarrow> bool" where
  "valid_node k c = (case c of Transformer \<Rightarrow> True | Image n \<Rightarrow> n < k)"

definition valid_load :: "nat \<Rightarrow> load \<Rightarrow> bool" where
  "valid_load k l = (case l of LoadDup m \<Rightarrow> m < k | _ \<Rightarrow> True)"

text \<open>Every node id the state holds names an image that was created; the
  history log is well formed; the transformer holds at most one node and
  never the base image.\<close>

definition wf_editor :: "editor \<Rightarrow> bool" where
  "wf_editor s \<longleftrightarrow>
     hist_inv (hist s) \<and>
     list_all (valid_node (length (images s))) (layer s) \<and>
     list_all (\<lambda>n. n < length (images s)) (selection s) \<and>
     list_all (valid_load (length (images s))) (pending s) \<and>
     pred_option (\<lambda>p. p < length (images s)) (pumpkinImage s) \<and>
     length (selection s) \<le> 1 \<and>
     pred_option (\<lambda>p. p \<notin> set (selection s)) (pumpkinImage s)"

subsection \<open>Every handler keeps the state well formed\<close>

lemma valid_node_mono: "k \<le> k' \<Longrightarrow> valid_node k c \<Longrightarrow> valid_node k' c"
  by (auto simp: valid_node_def split: node.splits)

lemma valid_load_mono: "k \<le> k' \<Longrightarrow> valid_load k l \<Longrightarrow> valid_load k' l"
  by (auto simp: valid_load_def split: load.splits)

lemma wf_saveState: "wf_editor s \<Longrightarrow> wf_editor (saveState s)"
  by (simp add: wf_editor_def saveState_def save_hist_inv)

lemma wf_restoreParts: "wf_editor s \<Longrightarrow> wf_editor (restoreParts snap s)"
  by (auto simp: wf_editor_def restoreParts_def valid_load_def list_all_iff)

lemma wf_clear_selection: "wf_editor s \<Longrightarrow> wf_editor (s\<lparr>selection := []\<rparr>)"
  by (simp add: wf_editor_def)

lemma wf_undo_redo_step:
  assumes "wf_editor s" "hist_inv h"
  shows "wf_editor ((case hist_at h of Some snap \<Rightarrow> restoreParts snap (s\<lparr>hist := h, layer := destroy_each (is_part s) (layer s)\<rparr>)
                     | None \<Rightarrow> s\<lparr>hist := h, layer := destroy_each (is_part s) (layer s)\<rparr>)\<lparr>selection := []\<rparr>)"
proof -
  have "wf_editor (s\<lparr>hist := h, layer := destroy_each (is_part s) (layer s)\<rparr>)"
    using assms list_all_subset [OF set_destroy_each, of "valid_node (length (images s))" "layer s" "is_part s"]
    by (simp add: wf_editor_def)
  then show ?thesis
    using wf_restoreParts wf_clear_selection by (simp split: option.split)
qed

lemma wf_undo: "wf_editor s \<Longrightarrow> wf_editor (undo s)"
  using wf_undo_redo_step [of s] hist_undo_inv [of "hist s"]
  by (auto simp: undo_def wf_editor_def Let_def split: option.splits)

lemma wf_redo: "wf_editor s \<Longrightarrow> wf_editor (redo s)"
  using wf_undo_redo_step [of s] hist_redo_inv [of "hist s"]
  by (auto simp: redo_def wf_editor_def Let_def split: option.splits)


lemma list_all_valid_load_mono:
  "list_all (valid_load k) ls \<Longrightarrow> k \<le> k' \<Longrightarrow> list_all (valid_load k') ls"
  by (auto simp: list_all_iff intro: valid_load_mono)

lemma valid_nodes_extend:
  assumes "list_all (valid_node k) cs" "set cs' \<subseteq> insert (Image k) (set cs)"
  shows "list_all (valid_node (Suc k)) cs'"
  unfolding list_all_iff
proof
  fix c assume "c \<in> set cs'"
  then have "c = Image k \<or> c \<in> set cs" using assms(2) by auto
  then show "valid_node (Suc k) c"
    using assms(1) by (auto simp: list_all_iff valid_node_def split: node.splits)
qed

lemma wf_add_image:
  assumes "wf_editor s"
    and "images s' = images s @ [img]"
    and "set (layer s') \<subseteq> insert (Image (length (images s))) (set (layer s))"
    and "hist s' = hist s" "selection s' = selection s" "pending s' = pending s"
    and "pumpkinImage s' = pumpkinImage s \<or> pumpkinImage s' = Some (length (images s))"
  shows "wf_editor s'"
proof -
  have "list_all (valid_node (Suc (length (images s)))) (layer s')"
    using assms(1,3) by (auto simp: wf_editor_def intro: valid_nodes_extend)
  moreover have "list_all (valid_load (Suc (length (images s)))) (pending s)"
    using assms(1) by (auto simp: wf_editor_def elim: list_all_valid_load_mono)
  moreover have "pred_option (\<lambda>p. p < Suc (length (images s))) (pumpkinImage s') \<and>
                 pred_option (\<lambda>p. p \<notin> set (selection s)) (pumpkinImage s')"
    using assms(7)
  proof
    assume "pumpkinImage s' = pumpkinImage s"
    then show ?thesis using assms(1) by (cases "pumpkinImage s") (auto simp: wf_editor_def)
  next
    assume "pumpkinImage s' = Some (length (images s))"
    then show ?thesis using assms(1) by (auto simp: wf_editor_def list_all_iff)
  qed
  moreover have "list_all (\<lambda>n. n < Suc (length (images s))) (selection s)"
    using assms(1) by (auto simp: wf_editor_def list_all_iff)
  ultimately show ?thesis
    using assms(1-6) by (simp add: wf_editor_def)
qed

lemma wf_complete_load:
  assumes "wf_editor s" "valid_load (length (images s)) l"
  shows "wf_editor (complete_load l s)"
proof (cases l)
  case LoadPumpkin
  let ?n = "length (images s)"
  define s2 where "s2 = (s\<lparr>images := images s @ [\<lparr>img_src = pumpkin_src, attrs = pumpkin_attrs (config s),
                draggable = False, listening = False\<rparr>]\<rparr>)
             \<lparr>pumpkinImage := Some ?n,
              layer := move_to_bottom (Image ?n) (layer_add (Image ?n) (layer s))\<rparr>"
  have "complete_load l s = (if history (hist s2) = [] then saveState s2 else s2)"
    using LoadPumpkin by (simp add: s2_def pumpkin_loaded_def new_image_def Let_def)
  moreover have "wf_editor s2"
    using assms(1) by (rule wf_add_image) (auto simp: s2_def)
  ultimately show ?thesis by (simp add: wf_saveState)
next
  case (LoadPart src pos sz)
  show ?thesis
    unfolding LoadPart complete_load.simps part_loaded_def new_image_def Let_def prod.case
    by (rule wf_saveState, rule wf_add_image [OF assms(1)]) simp_all
next
  case (LoadRestore pd)
  show ?thesis
    unfolding LoadRestore complete_load.simps restore_loaded_def new_image_def Let_def prod.case
    by (rule wf_add_image [OF assms(1)]) simp_all
next
  case (LoadDup m)
  show ?thesis
    unfolding LoadDup complete_load.simps dup_loaded_def new_image_def Let_def prod.case
    by (rule wf_add_image [OF assms(1)]) simp_all
qed


lemma wf_set_attrs: "wf_editor s \<Longrightarrow> wf_editor (set_attrs n a s)"
  by (simp add: wf_editor_def set_attrs_def)

lemma wf_layer_image: "wf_editor s \<Longrightarrow> Image n \<in> set (layer s) \<Longrightarrow> n < length (images s)"
  by (auto simp: wf_editor_def list_all_iff valid_node_def)

lemma wf_select:
  "wf_editor s \<Longrightarrow> n < length (images s) \<Longrightarrow> pumpkinImage s \<noteq> Some n \<Longrightarrow>
   wf_editor (s\<lparr>selection := [n]\<rparr>)"
  by (cases "pumpkinImage s") (auto simp: wf_editor_def)

lemma wf_click: "wf_editor s \<Longrightarrow> enabled (EvClick t) s \<Longrightarrow> wf_editor (click t s)"
  by (cases t) (auto simp: click_def wf_clear_selection wf_select wf_layer_image)

lemma set_fold_remove1_subset:
  "set (fold (\<lambda>n cs. if P n then cs else remove1 (Image n) cs) ns cs) \<subseteq> set cs"
proof (induction ns arbitrary: cs)
  case Nil
  then show ?case by simp
next
  case (Cons n ns)
  then show ?case using set_remove1_subset [of "Image n" cs] by (simp, blast)
qed

lemma wf_deleteSelected:
  assumes "wf_editor s"
  shows "wf_editor (deleteSelected s)"
proof -
  let ?cs = "fold (\<lambda>n cs. if pumpkinImage s = Some n then cs else remove1 (Image n) cs)
               (selection s) (layer s)"
  have "list_all (valid_node (length (images s))) ?cs"
    using assms list_all_subset [OF set_fold_remove1_subset, of "valid_node (length (images s))"]
    by (simp add: wf_editor_def)
  then have "wf_editor (s\<lparr>layer := ?cs, selection := []\<rparr>)"
    using assms by (simp add: wf_editor_def)
  then show ?thesis using assms by (simp add: deleteSelected_def wf_saveState)
qed

lemma wf_duplicateSelected:
  assumes "wf_editor s"
  shows "wf_editor (duplicateSelected s)"
proof -
  let ?ls = "[LoadDup n. n \<leftarrow> selection s, pumpkinImage s \<noteq> Some n]"
  have "list_all (valid_load (length (images s))) ?ls"
    using assms by (auto simp: wf_editor_def list_all_iff valid_load_def)
  then have "wf_editor (s\<lparr>pending := pending s @ ?ls, selection := []\<rparr>)"
    using assms by (simp add: wf_editor_def)
  then show ?thesis using assms by (simp add: duplicateSelected_def wf_saveState)
qed

lemma wf_clearAll:
  assumes "wf_editor s"
  shows "wf_editor (clearAll c s)"
proof -
  have "wf_editor (s\<lparr>layer := [], selection := [], pending := pending s @ [LoadPumpkin]\<rparr>)"
    using assms by (simp add: wf_editor_def valid_load_def)
  then show ?thesis using assms by (simp add: clearAll_def wf_saveState)
qed

lemma wf_keydown: "wf_editor s \<Longrightarrow> wf_editor (keydown e s)"
  by (simp add: keydown_def Let_def wf_deleteSelected wf_undo wf_redo)

lemma wf_addPartToCanvas:
  "wf_editor s \<Longrightarrow> wf_editor ((addPartToCanvas src pos sz s)\<lparr>draggedAsset := d\<rparr>)"
  "wf_editor s \<Longrightarrow> wf_editor (addPartToCanvas src pos sz s)"
  by (simp_all add: addPartToCanvas_def wf_editor_def valid_load_def)

lemma wf_drop: "wf_editor s \<Longrightarrow> wf_editor (drop_listener e s)"
  by (simp add: drop_listener_def Let_def wf_addPartToCanvas split: option.split)

lemma wf_handle: "wf_editor s \<Longrightarrow> enabled e s \<Longrightarrow> wf_editor (handle e s)"
proof (cases e)
  case (EvLoad i)
  assume wf: "wf_editor s" and en: "enabled e s"
  let ?s' = "s\<lparr>pending := splice1 i (pending s)\<rparr>"
  have "wf_editor ?s'"
    using wf by (simp add: wf_editor_def)
  moreover have "valid_load (length (images ?s')) (pending s ! i)"
    using wf en EvLoad by (simp add: wf_editor_def list_all_iff)
  ultimately show ?thesis
    using EvLoad by (simp add: wf_complete_load)
next
  case (EvLoadFail i)
  then show "wf_editor s \<Longrightarrow> enabled e s \<Longrightarrow> ?thesis"
    by (simp add: wf_editor_def)
qed (auto simp: wf_click transformend_def dragend_def wf_saveState wf_set_attrs wf_keydown
       wf_deleteSelected wf_duplicateSelected wf_clearAll wf_undo wf_redo wf_drop,
     (simp add: wf_editor_def)+)

lemma wf_init: "wf_editor (init_editor L tb)"
  by (simp add: wf_editor_def init_editor_def valid_node_def valid_load_def hist_inv_init)

lemma reachable_wf: "reachable L tb s \<Longrightarrow> wf_editor s"
  by (induction rule: reachable.induct) (auto simp: wf_init wf_handle)

subsection \<open>Properties of the handlers\<close>

lemma fold_remove1_keeps:
  "Image p \<in> set cs \<Longrightarrow> P p \<Longrightarrow>
   Image p \<in> set (fold (\<lambda>n cs. if P n then cs else remove1 (Image n) cs) ns cs)"
proof (induction ns arbitrary: cs)
  case Nil
  then show ?case by simp
next
  case (Cons n ns)
  have "Image p \<in> set (if P n then cs else remove1 (Image n) cs)"
    using Cons.prems by (cases "n = p") auto
  then show ?case using Cons.prems by (simp add: Cons.IH)
qed

lemma is_part_pumpkin [simp]: "pumpkinImage s = Some p \<Longrightarrow> \<not> is_part s (Image p)"
  by (simp add: is_part_def)

lemma undo_redo_keep_base:
  assumes "pumpkinImage s = Some p" "Image p \<in> set (layer s)"
  shows "pumpkinImage (undo s) = Some p \<and> Image p \<in> set (layer (undo s))"
    and "pumpkinImage (redo s) = Some p \<and> Image p \<in> set (layer (redo s))"
  using assms destroy_each_keeps [of "Image p" "layer s" "is_part s"]
  by (auto simp: undo_def redo_def restoreParts_def Let_def split: option.splits)

lemma deleteSelected_keeps_base:
  assumes "pumpkinImage s = Some p" "Image p \<in> set (layer s)"
  shows "pumpkinImage (deleteSelected s) = Some p \<and> Image p \<in> set (layer (deleteSelected s))"
  using assms fold_remove1_keeps [of p "layer s" "\<lambda>n. pumpkinImage s = Some n" "selection s"]
  by (simp add: deleteSelected_def saveState_def)

lemma keydown_keeps_base:
  assumes "pumpkinImage s = Some p" "Image p \<in> set (layer s)"
  shows "Image p \<in> set (layer (keydown e s))"
  using assms deleteSelected_keeps_base undo_redo_keep_base
  by (simp add: keydown_def Let_def)

lemma complete_load_layer_mono: "set (layer s) \<subseteq> set (layer (complete_load l s))"
  by (cases l) (auto simp: pumpkin_loaded_def part_loaded_def restore_loaded_def dup_loaded_def
    new_image_def Let_def saveState_def)

text \<open>C9: no event but a confirmed Clear all removes the base image from the layer: undo and redo skip it, Delete skips it, loads only add children.\<close>

theorem base_image_never_deleted:
  assumes "pumpkinImage s = Some p" "Image p \<in> set (layer s)" "e \<noteq> EvClearBtn True"
  shows "Image p \<in> set (layer (handle e s))"
proof (cases e)
  case (EvLoad i)
  then show ?thesis
    using assms complete_load_layer_mono [of "s\<lparr>pending := splice1 i (pending s)\<rparr>" "pending s ! i"]
    by auto
next
  case (EvClearBtn c)
  then show ?thesis using assms by (simp add: clearAll_def)
qed (use assms undo_redo_keep_base deleteSelected_keeps_base keydown_keeps_base in
      \<open>auto simp: click_def transformend_def dragend_def saveState_def set_attrs_def
         duplicateSelected_def drop_listener_def addPartToCanvas_def Let_def split: click_target.splits option.splits\<close>)


lemma undo_layer:
  "hist_undo (hist s) \<noteq> None \<Longrightarrow> layer (undo s) = destroy_each (is_part s) (layer s)"
  by (auto simp: undo_def restoreParts_def Let_def split: option.splits)

lemma undo_pumpkin [simp]: "pumpkinImage (undo s) = pumpkinImage s"
  by (auto simp: undo_def restoreParts_def Let_def split: option.splits)

lemma is_part_cong: "pumpkinImage s' = pumpkinImage s \<Longrightarrow> is_part s' = is_part s"
  by (auto simp: is_part_def fun_eq_iff split: node.split)

text \<open>C2: undo destroys only every other part: on a layer holding the base image, the transformer and n parts, n div 2 parts survive the destroy loop of undo (the spec says all are removed).\<close>

theorem undo_leaves_half:
  assumes "pumpkinImage s = Some p" "layer s = Image p # Transformer # map Image ns"
    "p \<notin> set ns" "hist_undo (hist s) \<noteq> None"
  shows "length (filter (is_part (undo s)) (layer (undo s))) = length ns div 2"
proof -
  have parts: "list_all (is_part s) (map Image ns)"
    using assms(1,3) by (auto simp: is_part_def list_all_iff)
  have "layer (undo s) = Image p # Transformer # skip_destroy (is_part s) (map Image ns)"
    using assms foreach_destroy_skip [of "[]" 0 "layer s" "length (layer s)" "is_part s"]
      skip_destroy_append_others [of "is_part s" "[Image p, Transformer]" "map Image ns"]
    by (simp add: undo_layer destroy_each_def is_part_def)
  moreover have "list_all (is_part s) (skip_destroy (is_part s) (map Image ns))"
    using parts set_skip_destroy [of "is_part s" "map Image ns"] by (auto simp: list_all_iff)
  ultimately show ?thesis
    using assms(1) parts length_skip_destroy_all [OF parts]
    by (simp add: is_part_cong [of "undo s" s] is_part_def list_all_iff)
qed


lemma save_then_undo:
  assumes "hist_inv h" "hist_at h = Some x"
  shows "\<exists>h'. hist_undo (save_hist y h) = Some h' \<and> hist_at h' = Some x"
proof -
  have ne: "history h \<noteq> []" using assms(2) by (auto simp: hist_at_def split: if_splits)
  obtain k where k: "historyStep h = int k" "k < length (history h)"
    using assms(1) ne by (rule hist_inv_cursor)
  have x: "x = history h ! k" using assms(2) k by (simp add: hist_at_def)
  have nk: "nat (int k + 1) = Suc k" by simp
  have tk: "take (Suc k) (history h) = take k (history h) @ [history h ! k]"
    using k(2) by (simp add: take_Suc_nth_snoc)
  show ?thesis
  proof (cases "MAX_HISTORY < Suc (Suc k)")
    case True
    then have "k = 49" using assms(1) k by (auto simp: hist_inv_def MAX_HISTORY_def)
    then show ?thesis
      using assms(1) k x by (simp add: save_hist_eq nk tk hist_undo_def hist_at_def MAX_HISTORY_def nth_append nth_tl)
  next
    case False
    then show ?thesis
      using assms(1) k x by (simp add: save_hist_eq nk tk hist_undo_def hist_at_def nth_append)
  qed
qed

text \<open>C20: a confirmed Clear all is recorded in the history, so undo right after it returns the cursor to the snapshot before the clear and queues the reconstruction of its parts (the confirmation text says the clear cannot be undone).\<close>

theorem clear_then_undo:
  assumes "hist_inv (hist s)" "hist_at (hist s) = Some snap"
  shows "hist_at (hist (undo (clearAll True s))) = Some snap \<and>
         pending (undo (clearAll True s)) =
           pending s @ LoadPumpkin # [LoadRestore pd. pd \<leftarrow> snap, pd_src pd \<noteq> []]"
proof -
  obtain h' where h': "hist_undo (save_hist (serialize (s\<lparr>layer := [], selection := [],
        pending := pending s @ [LoadPumpkin]\<rparr>)) (hist s)) = Some h'" "hist_at h' = Some snap"
    using save_then_undo [OF assms] by blast
  then show ?thesis
    by (simp add: clearAll_def saveState_def undo_def restoreParts_def Let_def)
qed

lemma handle_keeps_transformer_off:
  assumes "Transformer \<notin> set (layer s)"
  shows "Transformer \<notin> set (layer (handle e s))"
proof -
  have un: "Transformer \<notin> set (layer (undo s))" "Transformer \<notin> set (layer (redo s))"
    using assms set_destroy_each [of "is_part s" "layer s"]
    by (auto simp: undo_def redo_def restoreParts_def Let_def split: option.splits)
  have del: "Transformer \<notin> set (layer (deleteSelected s))"
    using assms set_fold_remove1_subset [of "\<lambda>n. pumpkinImage s = Some n" "selection s" "layer s"]
    by (auto simp: deleteSelected_def saveState_def)
  have "Transformer \<notin> set (layer (complete_load l s'))" if "Transformer \<notin> set (layer s')" for l s'
    using that by (cases l) (auto simp: pumpkin_loaded_def part_loaded_def restore_loaded_def
      dup_loaded_def new_image_def Let_def saveState_def)
  then show ?thesis
    using assms un del
    by (cases e) (auto simp: click_def transformend_def dragend_def saveState_def set_attrs_def
        duplicateSelected_def clearAll_def drop_listener_def addPartToCanvas_def keydown_def Let_def
        split: click_target.splits option.splits)
qed

text \<open>C21: after a confirmed Clear all the transformer is never put back on the layer, so no resize or rotation can end for the rest of the session.\<close>

theorem clear_disables_transform:
  "exec_events es (clearAll True s) = Some s' \<Longrightarrow> \<not> enabled (EvTransformEnd n a) s'"
proof -
  have "Transformer \<notin> set (layer s0) \<Longrightarrow> exec_events es s0 = Some s' \<Longrightarrow>
        Transformer \<notin> set (layer s')" for s0
  proof (induction es arbitrary: s0)
    case Nil
    then show ?case by simp
  next
    case (Cons e es)
    then show ?case using handle_keeps_transformer_off by (auto split: if_splits)
  qed
  moreover have "Transformer \<notin> set (layer (clearAll True s))"
    by (simp add: clearAll_def saveState_def)
  ultimately show "exec_events es (clearAll True s) = Some s' \<Longrightarrow> \<not> enabled (EvTransformEnd n a) s'"
    by auto
qed

text \<open>C23: a duplicate gets the original's width, height, offset and rotation but always scale 1, so a part resized through the transformer (which scales) is duplicated at its unscaled size.\<close>

theorem duplicate_resets_scale:
  "ascaleX (attrs (last (images (complete_load (LoadDup m) s)))) = 1 \<and>
   ascaleY (attrs (last (images (complete_load (LoadDup m) s)))) = 1 \<and>
   awidth (attrs (last (images (complete_load (LoadDup m) s)))) = awidth (attrs (images s ! m))"
  by (simp add: dup_loaded_def new_image_def part_image_def default_attrs_def Let_def)

text \<open>C26: Ctrl+Z undoes, Cmd+Y and Ctrl+Shift+z redo, Delete deletes the selection, Backspace in a text field does nothing, and a key event reporting key Z (upper case, as browsers report Shift+Z) does nothing.\<close>

theorem keyboard_shortcuts:
  "keydown \<lparr>key = ''z'', ctrlKey = True, metaKey = False, shiftKey = False, in_text_field = False\<rparr> s = undo s \<and>
   keydown \<lparr>key = ''y'', ctrlKey = False, metaKey = True, shiftKey = False, in_text_field = False\<rparr> s = redo s \<and>
   keydown \<lparr>key = ''z'', ctrlKey = True, metaKey = False, shiftKey = True, in_text_field = False\<rparr> s = redo s \<and>
   keydown \<lparr>key = ''Z'', ctrlKey = True, metaKey = False, shiftKey = True, in_text_field = False\<rparr> s = s \<and>
   keydown \<lparr>key = ''Delete'', ctrlKey = False, metaKey = False, shiftKey = False, in_text_field = False\<rparr> s = deleteSelected s \<and>
   keydown \<lparr>key = ''Backspace'', ctrlKey = False, metaKey = False, shiftKey = False, in_text_field = True\<rparr> s = s"
  by (simp add: keydown_def deleteSelected_def)


lemma exec_events_reachable:
  "reachable L tb s \<Longrightarrow> exec_events es s = Some s' \<Longrightarrow> reachable L tb s'"
proof (induction es arbitrary: s)
  case Nil
  then show ?case by simp
next
  case (Cons e es)
  then show ?case by (auto intro: reachable.step split: if_splits)
qed

text \<open>C8: in every reachable state the history log holds at most MAX_HISTORY
  snapshots and, when it is not empty, the cursor indexes one of them.\<close>

theorem reachable_history_bounded:
  "reachable L tb s \<Longrightarrow>
   length (history (hist s)) \<le> MAX_HISTORY \<and> (history (hist s) \<noteq> [] \<longrightarrow> hist_at (hist s) \<noteq> None)"
  using reachable_wf [of L tb s] by (auto simp: wf_editor_def hist_inv_def hist_at_def split: if_splits)

text \<open>C19: in every reachable state the transformer holds at most one node,
  and never the base image.\<close>

theorem reachable_single_selection:
  "reachable L tb s \<Longrightarrow>
   length (selection s) \<le> 1 \<and> pred_option (\<lambda>p. p \<notin> set (selection s)) (pumpkinImage s)"
  using reachable_wf [of L tb s] by (simp add: wf_editor_def)

end
