(* ===== verification/Scenarios.thy ===== *)
theory Scenarios
  imports Editor
begin

text \<open>
  Concrete runs of the editor: a 1920 by 1080 window, a toolbox of three
  assets of size 80, and event sequences the spec's testable properties
  (section 8) describe.  Each run is an \<open>exec_events\<close> from the initial
  state, in which every event must be enabled; the results are computed by
  the kernel (\<open>code_simp\<close>).  Image loads complete in the order they were
  requested unless a run says otherwise.  The second half holds the
  witnesses of the theorems of \<open>Editor\<close>, on reachable states.
\<close>

definition L0 :: layout where
  "L0 = compute_layout 1920 1080"

definition assetA :: asset where "assetA = \<lparr>asset_src = ''a.png'', asset_size = Some 80\<rparr>"
definition assetB :: asset where "assetB = \<lparr>asset_src = ''b.png'', asset_size = Some 80\<rparr>"
definition assetC :: asset where "assetC = \<lparr>asset_src = ''c.png'', asset_size = Some 80\<rparr>"

definition start :: editor where
  "start = init_editor L0 [assetA, assetB, assetC]"

definition drop_at :: "asset \<Rightarrow> num \<Rightarrow> num \<Rightarrow> event list" where
  "drop_at a px py =
     [EvAssetDragStart a,
      EvDrop \<lparr>drop_data = asset_src a, pointer = Some (px, py), client_pos = (px, py)\<rparr>,
      EvAssetDragEnd]"

definition part_at :: "string \<Rightarrow> num \<Rightarrow> num \<Rightarrow> part_data" where
  "part_at src px py =
     \<lparr>pd_src = src, pd_attrs = default_attrs\<lparr>ax := px, ay := py, awidth := 284 / 5,
        aheight := 284 / 5, aoffsetX := 142 / 5, aoffsetY := 142 / 5\<rparr>\<rparr>"

definition placeA :: "event list" where
  "placeA = EvLoad 0 # drop_at assetA 100 100 @ [EvLoad 0]"

definition placeAB :: "event list" where
  "placeAB = placeA @ drop_at assetB 200 200 @ [EvLoad 0]"

definition placeABC :: "event list" where
  "placeABC = placeAB @ drop_at assetC 300 300 @ [EvLoad 0]"

text \<open>After A's drop the pointer leaves the stage for the toolbox, to its
  left; the stage's last recorded pointer position is where it left, here
  (0,150) on the stage's left edge.  B's drag starts before the timer of
  A's \<^verbatim>\<open>dragend\<close> fires; B is dropped at (300,300).\<close>

definition drag_race :: "event list" where
  "drag_race =
     placeA @ [EvAssetDragStart assetB, EvDragTimer,
               EvDrop \<lparr>drop_data = ''b.png'', pointer = Some (0, 150), client_pos = (300, 300)\<rparr>,
               EvLoad 0]"

definition drag_no_race :: "event list" where
  "drag_no_race =
     placeA @ [EvAssetDragStart assetB, EvDragTimer] @ drop_at assetB 300 300 @ [EvLoad 0]"

definition stateA :: editor where
  "stateA = the (exec_events placeA start)"

definition stateA_selected :: editor where
  "stateA_selected = the (exec_events (placeA @ [EvClick (ClickImage 1)]) start)"

definition stateABC :: editor where
  "stateABC = the (exec_events placeABC start)"

definition stateA_cleared :: editor where
  "stateA_cleared = the (exec_events [EvLoad 0] (clearAll True stateA))"

text \<open>C6: the spec's first scenario holds: after the base image and part A at (100,100) are loaded the log holds two snapshots; undo leaves no part; redo and the reload give back A at (100,100).\<close>

theorem spec_scenario_undo_redo:
  "map_option (\<lambda>s. length (history (hist s))) (exec_events placeA start) = Some 2 \<and>
   map_option serialize (exec_events placeA start) = Some [part_at ''a.png'' 100 100] \<and>
   map_option serialize (exec_events (placeA @ [EvUndoBtn]) start) = Some [] \<and>
   map_option serialize (exec_events (placeA @ [EvUndoBtn, EvRedoBtn, EvLoad 0]) start) =
     Some [part_at ''a.png'' 100 100]"
  by code_simp

text \<open>C7: the spec's second scenario: after placing A and B, undo and placing C, the snapshot with A and B is gone and redo is disabled; but the new snapshot holds B again, which undo failed to remove.\<close>

theorem spec_scenario_truncation:
  "map_option (\<lambda>s. (history (hist s), redo_disabled (hist s)))
     (exec_events (placeAB @ [EvUndoBtn] @ drop_at assetC 300 300 @ [EvLoad 0, EvLoad 0]) start) =
   Some ([[], [part_at ''a.png'' 100 100],
          [part_at ''b.png'' 200 200, part_at ''a.png'' 100 100, part_at ''c.png'' 300 300]], True)"
  by code_simp

text \<open>C1: two placements followed by two undos (the restore load in between completing) do not give back the empty scene: the cursor is on the initial empty snapshot while part A is still on the layer.\<close>

theorem two_placements_two_undos:
  "map_option (\<lambda>s. (serialize s, hist_at (hist s)))
     (exec_events (placeAB @ [EvUndoBtn, EvLoad 0, EvUndoBtn]) start) =
   Some ([part_at ''a.png'' 100 100], Some [])"
  by code_simp

text \<open>C3: redo after undo does not restore the overlay exactly: from A and B, undo, redo and the reloads give A twice and B.\<close>

theorem undo_redo_not_exact:
  "map_option serialize (exec_events placeAB start) =
     Some [part_at ''a.png'' 100 100, part_at ''b.png'' 200 200] \<and>
   map_option serialize (exec_events (placeAB @ [EvUndoBtn, EvLoad 0, EvRedoBtn, EvLoad 0, EvLoad 0]) start) =
     Some [part_at ''a.png'' 100 100, part_at ''a.png'' 100 100, part_at ''b.png'' 200 200]"
  by code_simp

text \<open>C25: a restore load that completes after a later undo still adds its part: the accepted race of the spec (section 5) leaves part A on the canvas while the cursor is on the empty snapshot.\<close>

theorem stale_restore_after_undo:
  "map_option (\<lambda>s. (serialize s, hist_at (hist s)))
     (exec_events (placeA @ [EvUndoBtn, EvRedoBtn, EvUndoBtn, EvLoad 0]) start) =
   Some ([part_at ''a.png'' 100 100], Some [])"
  by code_simp

text \<open>C22: duplicating a part records no snapshot with the duplicate: saveState runs before the image of the copy loads, so the current snapshot lacks the copy at (130,130) that the canvas shows.\<close>

theorem duplicate_not_recorded:
  "map_option (\<lambda>s. (serialize s, hist_at (hist s)))
     (exec_events (placeA @ [EvClick (ClickImage 1), EvDuplicateBtn, EvLoad 0]) start) =
   Some ([part_at ''a.png'' 100 100, part_at ''a.png'' 130 130], Some [part_at ''a.png'' 100 100])"
  by code_simp

text \<open>C24: when a Clear all happens before the base image has loaded, two base images load; the first one is then treated as an overlay part and the next snapshot holds the base image (the spec says snapshots never do).\<close>

theorem double_clear_snapshots_base_image:
  "map_option (\<lambda>s. hist_at (hist s))
     (exec_events ([EvClearBtn True, EvLoad 0, EvLoad 0] @ drop_at assetA 100 100 @ [EvLoad 0]) start) =
   Some (Some [\<lparr>pd_src = pumpkin_src, pd_attrs = pumpkin_attrs L0\<rparr>, part_at ''a.png'' 100 100])"
  by code_simp

text \<open>C34: a drag that starts less than 100 ms after the previous one ended
  loses its asset to the previous drag's timer; the drop then takes the
  fallback path, which reads the stage's stale pointer position, and the
  part lands where the pointer last left the stage instead of where it was
  dropped.  When the timer fires before the next drag starts, the part
  lands where it was dropped.\<close>

theorem drag_timer_race_misplaces_drop:
  "map_option serialize (exec_events drag_race start) =
     Some [part_at ''a.png'' 100 100, part_at ''b.png'' 0 150] \<and>
   map_option serialize (exec_events drag_no_race start) =
     Some [part_at ''a.png'' 100 100, part_at ''b.png'' 300 300]"
  unfolding drag_race_def drag_no_race_def placeA_def drop_at_def start_def by code_simp

subsection \<open>Witnesses of the editor's properties\<close>

lemma start_reachable: "reachable L0 [assetA, assetB, assetC] start"
  unfolding start_def by (rule reachable.start)

lemma stateA_reachable: "reachable L0 [assetA, assetB, assetC] stateA"
proof -
  have "exec_events placeA start = Some stateA" unfolding stateA_def by code_simp
  then show ?thesis by (rule exec_events_reachable [OF start_reachable])
qed

lemma stateA_selected_reachable: "reachable L0 [assetA, assetB, assetC] stateA_selected"
proof -
  have "exec_events (placeA @ [EvClick (ClickImage 1)]) start = Some stateA_selected"
    unfolding stateA_selected_def by code_simp
  then show ?thesis by (rule exec_events_reachable [OF start_reachable])
qed

theorem base_image_never_deleted_witness:
  "pumpkinImage stateA_selected = Some 0 \<and> Image 0 \<in> set (layer stateA_selected) \<and>
   EvDeleteBtn \<noteq> EvClearBtn True \<and> Image 0 \<in> set (layer (handle EvDeleteBtn stateA_selected))"
proof -
  have h: "pumpkinImage stateA_selected = Some 0" "Image 0 \<in> set (layer stateA_selected)"
    unfolding stateA_selected_def by code_simp+
  show ?thesis using h base_image_never_deleted [OF h, of EvDeleteBtn] by simp
qed

theorem undo_leaves_half_witness:
  "pumpkinImage stateABC = Some 0 \<and> layer stateABC = Image 0 # Transformer # map Image [1, 2, 3] \<and>
   0 \<notin> set [1::nat, 2, 3] \<and> hist_undo (hist stateABC) \<noteq> None \<and>
   length (filter (is_part (undo stateABC)) (layer (undo stateABC))) = 1"
proof -
  have h: "pumpkinImage stateABC = Some 0" "layer stateABC = Image 0 # Transformer # map Image [1, 2, 3]"
    "0 \<notin> set [1::nat, 2, 3]" "hist_undo (hist stateABC) \<noteq> None"
    unfolding stateABC_def by code_simp+
  show ?thesis using h undo_leaves_half [OF h] by simp
qed

theorem clear_then_undo_witness:
  "hist_inv (hist stateA) \<and> hist_at (hist stateA) = Some [part_at ''a.png'' 100 100] \<and>
   hist_at (hist (undo (clearAll True stateA))) = Some [part_at ''a.png'' 100 100] \<and>
   pending (undo (clearAll True stateA)) = [LoadPumpkin, LoadRestore (part_at ''a.png'' 100 100)]"
proof -
  have h: "hist_inv (hist stateA)" "hist_at (hist stateA) = Some [part_at ''a.png'' 100 100]"
    unfolding stateA_def by code_simp+
  have p: "pending stateA = []" unfolding stateA_def by code_simp
  show ?thesis using h p clear_then_undo [OF h] by (simp add: part_at_def)
qed

theorem clear_disables_transform_witness:
  "exec_events [EvLoad 0] (clearAll True stateA) = Some stateA_cleared \<and>
   \<not> enabled (EvTransformEnd 1 default_attrs) stateA_cleared"
proof -
  have h: "exec_events [EvLoad 0] (clearAll True stateA) = Some stateA_cleared"
    unfolding stateA_cleared_def stateA_def by code_simp
  show ?thesis using h clear_disables_transform [OF h] by simp
qed

theorem reachable_history_bounded_witness:
  "reachable L0 [assetA, assetB, assetC] stateA \<and>
   length (history (hist stateA)) \<le> MAX_HISTORY \<and>
   history (hist stateA) \<noteq> [] \<and> hist_at (hist stateA) \<noteq> None"
proof -
  have ne: "history (hist stateA) \<noteq> []" unfolding stateA_def by code_simp
  show ?thesis using ne stateA_reachable reachable_history_bounded [OF stateA_reachable] by simp
qed

theorem reachable_single_selection_witness:
  "reachable L0 [assetA, assetB, assetC] stateA_selected \<and>
   length (selection stateA_selected) \<le> 1 \<and>
   pred_option (\<lambda>p. p \<notin> set (selection stateA_selected)) (pumpkinImage stateA_selected)"
  using stateA_selected_reachable reachable_single_selection [OF stateA_selected_reachable] by simp

end
