(* ===== verification/Text.thy ===== *)
theory Text
  imports Prelude
begin

text \<open>
  Strings the script builds from numbers.  A template literal
  \<^verbatim>\<open>`...${n}...`\<close> with a non-negative integer \<open>n\<close> below \<open>10\<^sup>2\<^sup>1\<close>
  (every value of \<^verbatim>\<open>Date.now()\<close>) inserts \<^verbatim>\<open>Number.prototype.toString\<close>
  of \<open>n\<close>: its decimal digits without leading zeros.  \<open>string_of_nat\<close> is
  that conversion; \<open>parse_dec\<close> reads a decimal numeral back, and the
  round trip between them is what makes names built from distinct
  timestamps distinct.
\<close>

fun string_of_nat :: "nat \<Rightarrow> string" where
  "string_of_nat n =
     (if n < 10 then [char_of (48 + n)]
      else string_of_nat (n div 10) @ [char_of (48 + n mod 10)])"

declare string_of_nat.simps [simp del]

definition is_digit :: "char \<Rightarrow> bool" where
  "is_digit c = (48 \<le> (of_char c :: nat) \<and> (of_char c :: nat) < 58)"

fun parse_dec_acc :: "nat \<Rightarrow> string \<Rightarrow> nat option" where
  "parse_dec_acc acc [] = Some acc"
| "parse_dec_acc acc (c # cs) =
     (if is_digit c then parse_dec_acc (10 * acc + (of_char c - 48)) cs else None)"

definition parse_dec :: "string \<Rightarrow> nat option" where
  "parse_dec s = (if s = [] then None else parse_dec_acc 0 s)"

subsection \<open>Round trip\<close>

lemma of_char_digit [simp]: "(d::nat) < 10 \<Longrightarrow> (of_char (char_of (48 + d)) :: nat) = 48 + d"
  by (simp add: of_char_of)

lemma is_digit_char_of [simp]: "(d::nat) < 10 \<Longrightarrow> is_digit (char_of (48 + d))"
  by (simp add: is_digit_def)

lemma string_of_nat_not_Nil [simp]: "string_of_nat n \<noteq> []"
  by (subst string_of_nat.simps) simp

lemma parse_dec_acc_append:
  "parse_dec_acc acc (xs @ ys) = Option.bind (parse_dec_acc acc xs) (\<lambda>a. parse_dec_acc a ys)"
  by (induction acc xs rule: parse_dec_acc.induct) auto

lemma parse_dec_acc_string_of_nat: "parse_dec_acc 0 (string_of_nat n) = Some n"
proof (induction n rule: string_of_nat.induct)
  case (1 n)
  show ?case
  proof (cases "n < 10")
    case True
    then show ?thesis by (subst string_of_nat.simps) simp
  next
    case False
    then have "parse_dec_acc 0 (string_of_nat (n div 10)) = Some (n div 10)"
      by (rule "1.IH")
    with False show ?thesis
      by (subst string_of_nat.simps) (simp add: parse_dec_acc_append)
  qed
qed

lemma parse_string_of_nat [simp]: "parse_dec (string_of_nat n) = Some n"
  by (simp add: parse_dec_def parse_dec_acc_string_of_nat)

lemma string_of_nat_inject [simp]: "string_of_nat a = string_of_nat b \<longleftrightarrow> a = b"
  by (metis parse_string_of_nat option.inject)

lemma string_of_nat_digits: "list_all is_digit (string_of_nat n)"
proof (induction n rule: string_of_nat.induct)
  case (1 n)
  then show ?case by (subst string_of_nat.simps) simp
qed

end
