(* ===== verification/Export.thy ===== *)
theory Export
  imports Scenarios Text "HOL-Library.Multiset"
begin

text \<open>
  Export (\<^verbatim>\<open>src/script.js\<close>, lines 401--454): the download button, the
  share button and its clipboard fallback \<^verbatim>\<open>fallbackCopy\<close>.  These
  handlers act on the page outside the editor, so the page is a record of
  its own, \<open>browser\<close>:
  \<^item> the children of \<^verbatim>\<open>document.body\<close>;
  \<^item> the files the browser has saved;
  \<^item> the dialogs shown (\<^verbatim>\<open>alert\<close>, \<^verbatim>\<open>prompt\<close>);
  \<^item> the system clipboard;
  \<^item> the \<^verbatim>\<open>navigator.clipboard.writeText\<close> promises not yet settled;
  \<^item> whether the Clipboard API exists.
  A session pairs it with the editor.  Its events are the editor's events
  and the export clicks, and the settling of a clipboard promise, which the
  browser delivers later, in any order.  What the environment decides is an
  argument of the event: the time \<^verbatim>\<open>Date.now()\<close> returns, and the outcome
  of \<^verbatim>\<open>document.execCommand('copy')\<close>.  The latter returns \<^verbatim>\<open>true\<close>
  when it copied, returns \<^verbatim>\<open>false\<close> when the browser refuses the
  command, and throws in browsers that forbid it.

  Konva's \<^verbatim>\<open>stage.toDataURL\<close> is modelled by what the picture it encodes
  shows: the layer's children drawn in order, where the transformer draws
  its handles around its nodes when it has any.
\<close>

datatype render_item = RImage kimage | RHandles "nat list"

datatype data_url = PngDataURL nat "render_item list"

fun render_node :: "editor \<Rightarrow> node \<Rightarrow> render_item list" where
  "render_node s Transformer = (if selection s = [] then [] else [RHandles (selection s)])"
| "render_node s (Image n) = [RImage (images s ! n)]"

definition toDataURL :: "nat \<Rightarrow> editor \<Rightarrow> data_url" where
  "toDataURL pixelRatio s = PngDataURL pixelRatio (concat (map (render_node s) (layer s)))"

datatype dom_elem = PageElem nat | Anchor data_url string | TextArea data_url

datatype dialog = Alert string | Prompt string data_url

datatype exec_result = ExecCopied | ExecRefused | ExecThrows

record browser =
  body :: "dom_elem list"
  saved_files :: "(string \<times> data_url) list"
  dialogs :: "dialog list"
  clipboard :: "data_url option"
  clip_writes :: "data_url list"
  clipboard_api :: bool

definition init_browser :: "dom_elem list \<Rightarrow> bool \<Rightarrow> browser" where
  "init_browser page api =
     \<lparr>body = page, saved_files = [], dialogs = [], clipboard = None, clip_writes = [],
      clipboard_api = api\<rparr>"

definition copied_msg :: string where
  "copied_msg = ''Image link copied to clipboard!''"

subsection \<open>Download\<close>

definition download_name :: "nat \<Rightarrow> string" where
  "download_name t = ''pumpkin-'' @ string_of_nat t @ ''.png''"

text \<open>\<^verbatim>\<open>link.click()\<close> on an anchor with a \<^verbatim>\<open>download\<close> attribute saves
  its \<^verbatim>\<open>href\<close> under that name.\<close>

definition link_click :: "dom_elem \<Rightarrow> browser \<Rightarrow> browser" where
  "link_click el b =
     (case el of Anchor url name \<Rightarrow> b\<lparr>saved_files := saved_files b @ [(name, url)]\<rparr> | _ \<Rightarrow> b)"

text \<open>The download listener (lines 402--416); the editor's part of it,
  \<^verbatim>\<open>transformer.nodes([])\<close>, is \<open>handle EvDownload\<close>.\<close>

definition download_click :: "nat \<Rightarrow> editor \<Rightarrow> browser \<Rightarrow> editor \<times> browser" where
  "download_click t s b =
     (let s1 = handle EvDownload s;
          link = Anchor (toDataURL 2 s1) (download_name t);
          b1 = b\<lparr>body := body b @ [link]\<rparr>;
          b2 = link_click link b1
      in (s1, b2\<lparr>body := remove1 link (body b2)\<rparr>))"

subsection \<open>Share and the clipboard fallback\<close>

definition fallbackCopy :: "exec_result \<Rightarrow> data_url \<Rightarrow> browser \<Rightarrow> browser" where
  "fallbackCopy r text b =
     (let ta = TextArea text;
          b1 = b\<lparr>body := body b @ [ta]\<rparr>;
          b2 = (case r of
                  ExecCopied \<Rightarrow> b1\<lparr>clipboard := Some text, dialogs := dialogs b1 @ [Alert copied_msg]\<rparr>
                | ExecRefused \<Rightarrow> b1\<lparr>dialogs := dialogs b1 @ [Alert copied_msg]\<rparr>
                | ExecThrows \<Rightarrow> b1\<lparr>dialogs := dialogs b1 @ [Prompt ''Copy this link:'' text]\<rparr>)
      in b2\<lparr>body := remove1 ta (body b2)\<rparr>)"

text \<open>The share listener (lines 419--438): with the Clipboard API the write
  is a promise that settles later; without it the fallback runs at once.\<close>

definition share_click :: "exec_result \<Rightarrow> editor \<Rightarrow> browser \<Rightarrow> editor \<times> browser" where
  "share_click r s b =
     (let s1 = handle EvShare s;
          url = toDataURL 2 s1
      in if clipboard_api b then (s1, b\<lparr>clip_writes := clip_writes b @ [url]\<rparr>)
         else (s1, fallbackCopy r url b))"

text \<open>The \<^verbatim>\<open>then\<close> and \<^verbatim>\<open>catch\<close> callbacks of the \<open>i\<close>-th pending
  \<^verbatim>\<open>writeText\<close>.\<close>

definition clip_resolved :: "nat \<Rightarrow> browser \<Rightarrow> browser" where
  "clip_resolved i b =
     b\<lparr>clip_writes := splice1 i (clip_writes b), clipboard := Some (clip_writes b ! i),
       dialogs := dialogs b @ [Alert copied_msg]\<rparr>"

definition clip_rejected :: "nat \<Rightarrow> exec_result \<Rightarrow> browser \<Rightarrow> browser" where
  "clip_rejected i r b =
     fallbackCopy r (clip_writes b ! i) (b\<lparr>clip_writes := splice1 i (clip_writes b)\<rparr>)"

subsection \<open>The session: the editor and the page\<close>

record session =
  ed :: editor
  br :: browser

datatype sevent =
    UI event
  | Download nat
  | Share exec_result
  | ClipResolve nat
  | ClipReject nat exec_result

fun session_step :: "sevent \<Rightarrow> session \<Rightarrow> session" where
  "session_step (UI e) ss = ss\<lparr>ed := handle e (ed ss)\<rparr>"
| "session_step (Download t) ss =
     (let (s, b) = download_click t (ed ss) (br ss) in \<lparr>ed = s, br = b\<rparr>)"
| "session_step (Share r) ss =
     (let (s, b) = share_click r (ed ss) (br ss) in \<lparr>ed = s, br = b\<rparr>)"
| "session_step (ClipResolve i) ss = ss\<lparr>br := clip_resolved i (br ss)\<rparr>"
| "session_step (ClipReject i r) ss = ss\<lparr>br := clip_rejected i r (br ss)\<rparr>"

text \<open>The export buttons reach the editor only through \<open>Download\<close> and
  \<open>Share\<close>, which run its listener and the page's part together.\<close>

fun session_enabled :: "sevent \<Rightarrow> session \<Rightarrow> bool" where
  "session_enabled (UI e) ss = (enabled e (ed ss) \<and> e \<noteq> EvDownload \<and> e \<noteq> EvShare)"
| "session_enabled (ClipResolve i) ss = (i < length (clip_writes (br ss)))"
| "session_enabled (ClipReject i r) ss = (i < length (clip_writes (br ss)))"
| "session_enabled _ ss = True"

fun exec_session :: "sevent list \<Rightarrow> session \<Rightarrow> session option" where
  "exec_session [] ss = Some ss"
| "exec_session (e # es) ss =
     (if session_enabled e ss then exec_session es (session_step e ss) else None)"

inductive session_reachable :: "layout \<Rightarrow> asset list \<Rightarrow> dom_elem list \<Rightarrow> bool \<Rightarrow> session \<Rightarrow> bool"
  for L tb page api where
  start: "session_reachable L tb page api \<lparr>ed = init_editor L tb, br = init_browser page api\<rparr>"
| step: "session_reachable L tb page api ss \<Longrightarrow> session_enabled e ss \<Longrightarrow>
         session_reachable L tb page api (session_step e ss)"

text \<open>Everything the page has exported: the saved files, the writes to the
  clipboard pending or done, and the text shown in a prompt.\<close>

fun dialog_urls :: "dialog \<Rightarrow> data_url list" where
  "dialog_urls (Alert m) = []"
| "dialog_urls (Prompt m u) = [u]"

definition exported :: "browser \<Rightarrow> data_url list" where
  "exported b =
     map snd (saved_files b) @ clip_writes b @ (case clipboard b of None \<Rightarrow> [] | Some u \<Rightarrow> [u])
     @ concat (map dialog_urls (dialogs b))"

fun is_handles :: "render_item \<Rightarrow> bool" where
  "is_handles (RHandles ns) = True"
| "is_handles (RImage img) = False"

fun shows_handles :: "data_url \<Rightarrow> bool" where
  "shows_handles (PngDataURL r items) = list_ex is_handles items"

text \<open>A page with one element of its own, the Clipboard API available, and the editor at its start.\<close>

definition session0 :: session where
  "session0 = \<lparr>ed = start, br = init_browser [PageElem 0] True\<rparr>"

text \<open>Part A placed and selected, then downloaded at time 42.\<close>

definition sessD :: session where
  "sessD = the (exec_session (map UI (placeA @ [EvClick (ClickImage 1)]) @ [Download 42])
                             session0)"

subsection \<open>Export handlers\<close>

lemma mset_remove1_snoc [simp]: "mset (remove1 x (xs @ [x])) = mset xs"
  by (induction xs) auto

lemma handle_export_clears [simp]:
  "handle EvDownload s = s\<lparr>selection := []\<rparr>" "handle EvShare s = s\<lparr>selection := []\<rparr>"
  by simp_all

lemma toDataURL_unselected: "\<not> shows_handles (toDataURL r (s\<lparr>selection := []\<rparr>))"
proof -
  have "\<not> is_handles x" if "x \<in> set (render_node (s\<lparr>selection := []\<rparr>) c)" for x c
    using that by (cases c) auto
  then show ?thesis by (auto simp: toDataURL_def list_ex_iff)
qed

lemma download_click_eq:
  "download_click t s b =
     (s\<lparr>selection := []\<rparr>,
      b\<lparr>body := remove1 (Anchor (toDataURL 2 (s\<lparr>selection := []\<rparr>)) (download_name t))
                  (body b @ [Anchor (toDataURL 2 (s\<lparr>selection := []\<rparr>)) (download_name t)]),
        saved_files := saved_files b @ [(download_name t, toDataURL 2 (s\<lparr>selection := []\<rparr>))]\<rparr>)"
  by (simp add: download_click_def link_click_def Let_def)

lemma fallbackCopy_fields:
  "mset (body (fallbackCopy r u b)) = mset (body b)"
  "saved_files (fallbackCopy r u b) = saved_files b"
  "clip_writes (fallbackCopy r u b) = clip_writes b"
  "clipboard_api (fallbackCopy r u b) = clipboard_api b"
  by (cases r; simp add: fallbackCopy_def Let_def)+

lemma fallbackCopy_outcome:
  "fallbackCopy ExecCopied u b = b\<lparr>body := remove1 (TextArea u) (body b @ [TextArea u]),
     clipboard := Some u, dialogs := dialogs b @ [Alert copied_msg]\<rparr>"
  "fallbackCopy ExecRefused u b = b\<lparr>body := remove1 (TextArea u) (body b @ [TextArea u]),
     dialogs := dialogs b @ [Alert copied_msg]\<rparr>"
  "fallbackCopy ExecThrows u b = b\<lparr>body := remove1 (TextArea u) (body b @ [TextArea u]),
     dialogs := dialogs b @ [Prompt ''Copy this link:'' u]\<rparr>"
  by (simp_all add: fallbackCopy_def Let_def)

lemma set_exported_fallbackCopy:
  "set (exported (fallbackCopy r u b)) \<subseteq> insert u (set (exported b))"
  by (cases r) (auto simp: fallbackCopy_outcome exported_def split: option.splits)

lemma nth_in_splice1_set:
  "i < length xs \<Longrightarrow> insert (xs ! i) (set (splice1 i xs)) = set xs"
proof -
  assume i: "i < length xs"
  have "xs = take i xs @ xs ! i # List.drop (Suc i) xs"
    using i by (simp add: id_take_nth_drop)
  then show ?thesis by (metis Un_insert_right list.simps(15) set_append splice1_def)
qed

lemma set_exported_clip_resolved:
  "i < length (clip_writes b) \<Longrightarrow> set (exported (clip_resolved i b)) \<subseteq> set (exported b)"
  using nth_in_splice1_set [of i "clip_writes b"]
  by (auto simp: clip_resolved_def exported_def split: option.splits)

lemma set_exported_clip_rejected:
  "i < length (clip_writes b) \<Longrightarrow> set (exported (clip_rejected i r b)) \<subseteq> set (exported b)"
  using set_exported_fallbackCopy [of r "clip_writes b ! i" "b\<lparr>clip_writes := splice1 i (clip_writes b)\<rparr>"]
    nth_in_splice1_set [of i "clip_writes b"]
  by (auto simp: clip_rejected_def exported_def split: option.splits)

lemma share_click_eq:
  "share_click r s b =
     (s\<lparr>selection := []\<rparr>,
      if clipboard_api b then b\<lparr>clip_writes := clip_writes b @ [toDataURL 2 (s\<lparr>selection := []\<rparr>)]\<rparr>
      else fallbackCopy r (toDataURL 2 (s\<lparr>selection := []\<rparr>)) b)"
  by (simp add: share_click_def Let_def)

lemma session_step_export [simp]:
  "session_step (Download t) ss = \<lparr>ed = fst (download_click t (ed ss) (br ss)), br = snd (download_click t (ed ss) (br ss))\<rparr>"
  "session_step (Share r) ss = \<lparr>ed = fst (share_click r (ed ss) (br ss)), br = snd (share_click r (ed ss) (br ss))\<rparr>"
  by (simp_all add: case_prod_beta)

declare session_step.simps(2,3) [simp del]

text \<open>C35: no picture the page exports shows the transformer's handles: every
  saved file, clipboard write, clipboard content and prompt of a reachable
  session was rendered after \<^verbatim>\<open>transformer.nodes([])\<close>.\<close>

theorem exported_images_hide_handles:
  "session_reachable L tb page api ss \<Longrightarrow> u \<in> set (exported (br ss)) \<Longrightarrow> \<not> shows_handles u"
proof (induction arbitrary: u rule: session_reachable.induct)
  case start
  then show ?case by (simp add: init_browser_def exported_def)
next
  case (step ss e)
  show ?case
  proof (cases e)
    case (UI x)
    with step show ?thesis by simp
  next
    case (Download t)
    with step show ?thesis
      by (auto simp: download_click_eq exported_def toDataURL_unselected)
  next
    case (Share r)
    show ?thesis
    proof (cases "clipboard_api (br ss)")
      case True
      with step Share show ?thesis
        by (auto simp: share_click_eq exported_def toDataURL_unselected)
    next
      case False
      with step Share set_exported_fallbackCopy [of r "toDataURL 2 ((ed ss)\<lparr>selection := []\<rparr>)" "br ss"]
      show ?thesis by (auto simp: share_click_eq toDataURL_unselected)
    qed
  next
    case (ClipResolve i)
    with step set_exported_clip_resolved [of i "br ss"] show ?thesis by auto
  next
    case (ClipReject i r)
    with step set_exported_clip_rejected [of i "br ss" r] show ?thesis by auto
  qed
qed

subsection \<open>The session refines the editor\<close>

lemma session_ed_step:
  assumes "session_enabled e ss"
  shows "ed (session_step e ss) = ed ss \<or>
         (\<exists>e'. enabled e' (ed ss) \<and> ed (session_step e ss) = handle e' (ed ss))"
proof (cases e)
  case (UI x)
  then show ?thesis using assms by auto
next
  case (Download t)
  then show ?thesis by (intro disjI2 exI [of _ EvDownload]) (simp add: download_click_eq)
next
  case (Share r)
  then show ?thesis by (intro disjI2 exI [of _ EvShare]) (simp add: share_click_eq)
next
  case (ClipResolve i)
  then show ?thesis by simp
next
  case (ClipReject i r)
  then show ?thesis by simp
qed

lemma session_br_step:
  "mset (body (br (session_step e ss))) = mset (body (br ss)) \<and>
   clipboard_api (br (session_step e ss)) = clipboard_api (br ss)"
  by (cases e) (simp_all add: download_click_eq share_click_eq fallbackCopy_fields clip_resolved_def
      clip_rejected_def)

text \<open>C36: the page's part of a session never leaks into the editor: the
  editor of every reachable session is a reachable editor state, so every
  invariant of \<open>Editor\<close> holds there; and the export handlers give back the
  document body with the elements it had (the link and the textarea they
  append are removed again).\<close>

theorem session_runs_editor:
  "session_reachable L tb page api ss \<Longrightarrow>
   reachable L tb (ed ss) \<and> mset (body (br ss)) = mset page \<and> clipboard_api (br ss) = api"
proof (induction rule: session_reachable.induct)
  case start
  then show ?case by (simp add: init_browser_def reachable.start)
next
  case (step ss e)
  have "reachable L tb (ed (session_step e ss))"
    using session_ed_step [OF step.hyps(2)]
  proof
    assume "ed (session_step e ss) = ed ss"
    then show ?thesis using step.IH by simp
  next
    assume "\<exists>e'. enabled e' (ed ss) \<and> ed (session_step e ss) = handle e' (ed ss)"
    then show ?thesis using step.IH reachable.step by metis
  qed
  then show ?case using step.IH session_br_step [of e ss] by simp
qed

text \<open>C37: a share always settles in one of the outcomes the spec lists.
  When the Clipboard API is missing, or once the pending write has settled,
  no write is left pending, the document body has its elements back, and
  exactly one dialog has been added: the success alert with the picture of
  the canvas (handles hidden) on the clipboard, or the prompt showing that
  picture; or, only when \<^verbatim>\<open>execCommand\<close> refused, the success alert with
  the clipboard unchanged.\<close>

theorem share_outcomes:
  assumes "clip_writes b = []"
  shows "let p = toDataURL 2 (s\<lparr>selection := []\<rparr>);
             b1 = snd (share_click r s b);
             b2 = (if clipboard_api b then (if ok then clip_resolved 0 b1 else clip_rejected 0 r b1)
                   else b1)
         in \<not> shows_handles p \<and> clip_writes b2 = [] \<and> mset (body b2) = mset (body b) \<and>
            ((clipboard b2 = Some p \<and> dialogs b2 = dialogs b @ [Alert copied_msg]) \<or>
             (clipboard b2 = clipboard b \<and> dialogs b2 = dialogs b @ [Prompt ''Copy this link:'' p]) \<or>
             (r = ExecRefused \<and> clipboard b2 = clipboard b \<and> dialogs b2 = dialogs b @ [Alert copied_msg]))"
  using assms
  by (cases r) (auto simp: Let_def share_click_eq clip_resolved_def clip_rejected_def
      fallbackCopy_outcome toDataURL_unselected)

text \<open>C38: \<^verbatim>\<open>fallbackCopy\<close> ignores what \<^verbatim>\<open>execCommand('copy')\<close>
  returns: when the browser refuses the command the user is told the link
  was copied while the clipboard is unchanged; only a thrown exception
  leads to the prompt with the data to copy by hand.\<close>

theorem fallbackCopy_refused_reports_success:
  "clipboard (fallbackCopy ExecRefused u b) = clipboard b \<and>
   dialogs (fallbackCopy ExecRefused u b) = dialogs b @ [Alert copied_msg] \<and>
   clipboard (fallbackCopy ExecCopied u b) = Some u \<and>
   dialogs (fallbackCopy ExecCopied u b) = dialogs b @ [Alert copied_msg] \<and>
   clipboard (fallbackCopy ExecThrows u b) = clipboard b \<and>
   dialogs (fallbackCopy ExecThrows u b) = dialogs b @ [Prompt ''Copy this link:'' u]"
  by (simp add: fallbackCopy_outcome)

subsection \<open>Witnesses\<close>

lemma exec_session_reachable:
  "session_reachable L tb page api ss \<Longrightarrow> exec_session es ss = Some ss' \<Longrightarrow>
   session_reachable L tb page api ss'"
proof (induction es arbitrary: ss)
  case Nil
  then show ?case by simp
next
  case (Cons e es)
  then show ?case by (auto intro: session_reachable.step split: if_splits)
qed

lemma sessD_reachable: "session_reachable L0 [assetA, assetB, assetC] [PageElem 0] True sessD"
proof -
  have "session_reachable L0 [assetA, assetB, assetC] [PageElem 0] True session0"
    unfolding session0_def start_def by (rule session_reachable.start)
  moreover have "exec_session (map UI (placeA @ [EvClick (ClickImage 1)]) @ [Download 42])
                   session0 = Some sessD"
    unfolding sessD_def session0_def by code_simp
  ultimately show ?thesis by (rule exec_session_reachable)
qed

theorem exported_images_hide_handles_witness:
  "session_reachable L0 [assetA, assetB, assetC] [PageElem 0] True sessD \<and>
   toDataURL 2 (stateA_selected\<lparr>selection := []\<rparr>) \<in> set (exported (br sessD)) \<and>
   \<not> shows_handles (toDataURL 2 (stateA_selected\<lparr>selection := []\<rparr>)) \<and>
   shows_handles (toDataURL 2 stateA_selected)"
proof -
  have u: "toDataURL 2 (stateA_selected\<lparr>selection := []\<rparr>) \<in> set (exported (br sessD))"
    unfolding sessD_def session0_def stateA_selected_def by code_simp
  have v: "shows_handles (toDataURL 2 stateA_selected)"
    unfolding stateA_selected_def by code_simp
  show ?thesis using sessD_reachable u v exported_images_hide_handles [OF sessD_reachable u] by simp
qed

theorem session_runs_editor_witness:
  "session_reachable L0 [assetA, assetB, assetC] [PageElem 0] True sessD \<and>
   reachable L0 [assetA, assetB, assetC] (ed sessD) \<and> mset (body (br sessD)) = mset [PageElem 0]"
  using sessD_reachable session_runs_editor [OF sessD_reachable] by simp

theorem share_outcomes_witness:
  "clip_writes (init_browser [PageElem 0] True) = [] \<and>
   clipboard (clip_resolved 0 (snd (share_click ExecCopied stateA (init_browser [PageElem 0] True)))) =
     Some (toDataURL 2 (stateA\<lparr>selection := []\<rparr>))"
proof -
  have h: "clip_writes (init_browser [PageElem 0] True) = []" by (simp add: init_browser_def)
  show ?thesis
    using h share_outcomes [OF h, of stateA ExecCopied True]
    by (simp add: Let_def init_browser_def share_click_eq clip_resolved_def)
qed

end
