(* ===== verification/Pumpkin.thy ===== *)
theory Pumpkin
  imports Layout Text
begin

text \<open>
  The SVG picture of the base image that \<^verbatim>\<open>loadPumpkin\<close> draws
  (\<^verbatim>\<open>src/script.js\<close>, lines 157--182): the coordinates it computes from
  \<^verbatim>\<open>PUMPKIN_WIDTH\<close> and \<^verbatim>\<open>PUMPKIN_HEIGHT\<close> (lines 159--165), the two
  ellipses and the stem it draws with them (lines 176--178), and the
  radial gradient that fills the body, declared with an id and referenced
  by \<^verbatim>\<open>url(#...)\<close>.  Both the id (line 170) and the reference (line 176)
  embed their own call of \<^verbatim>\<open>Date.now()\<close>.  A call of \<^verbatim>\<open>Date.now()\<close>
  reads the clock; \<open>ts\<close> lists the readings successive calls obtain, and
  \<open>date_now\<close> takes the next one.  The template literal evaluates its
  substitutions left to right, so the id gets the first reading and the
  reference the second.
\<close>

record pumpkin_geom =
  centerX :: num
  centerY :: num
  radiusX :: num
  radiusY :: num
  stemY :: num
  stemX1 :: num
  stemX2 :: num

definition pumpkin_geometry :: "layout \<Rightarrow> pumpkin_geom" where
  "pumpkin_geometry L =
     (let W = of_int (PUMPKIN_WIDTH L); H = of_int (PUMPKIN_HEIGHT L);
          cX = W / 2; cY = H / 2
      in \<lparr>centerX = cX, centerY = cY, radiusX = W * 0.48, radiusY = H * 0.52,
          stemY = H * 0.08, stemX1 = cX - W * 0.2, stemX2 = cX + W * 0.2\<rparr>)"

record svg_ellipse =
  ecx :: num
  ecy :: num
  erx :: num
  ery :: num

text \<open>The body (filled by the gradient) and the darker shading ellipse.\<close>

definition pumpkin_ellipses :: "layout \<Rightarrow> svg_ellipse list" where
  "pumpkin_ellipses L =
     (let g = pumpkin_geometry L
      in [\<lparr>ecx = centerX g, ecy = centerY g, erx = radiusX g, ery = radiusY g\<rparr>,
          \<lparr>ecx = centerX g, ecy = centerY g + of_int (PUMPKIN_HEIGHT L) * 0.08,
           erx = radiusX g * 0.9, ery = radiusY g * 0.85\<rparr>])"

text \<open>The stem: a quadratic curve from \<open>(stemX1, stemY)\<close> through the control
  point \<open>(centerX, stemY * 0.6)\<close> to \<open>(stemX2, stemY)\<close>, and its stroke
  width.\<close>

definition stem_path :: "layout \<Rightarrow> (num \<times> num) list \<times> num" where
  "stem_path L =
     (let g = pumpkin_geometry L
      in ([(stemX1 g, stemY g), (centerX g, stemY g * 0.6), (stemX2 g, stemY g)],
          of_int (PUMPKIN_WIDTH L) * 0.02))"

text \<open>A point strictly inside an ellipse.\<close>

definition inside_ellipse :: "svg_ellipse \<Rightarrow> num \<times> num \<Rightarrow> bool" where
  "inside_ellipse e p =
     (((fst p - ecx e) / erx e)\<^sup>2 + ((snd p - ecy e) / ery e)\<^sup>2 < 1)"

definition gradient_id :: "nat \<Rightarrow> string" where
  "gradient_id t1 = ''pumpkinGrad'' @ string_of_nat t1"

definition fill_ref :: "nat \<Rightarrow> string" where
  "fill_ref t2 = ''url(#pumpkinGrad'' @ string_of_nat t2 @ '')''"

text \<open>The id a \<^verbatim>\<open>url(#id)\<close> reference names, if it is one.\<close>

definition url_target :: "string \<Rightarrow> string option" where
  "url_target r =
     (if take 5 r = ''url(#'' \<and> 6 \<le> length r \<and> last r = CHR '')''
      then Some (drop 5 (butlast r)) else None)"

definition date_now :: "nat list \<Rightarrow> nat \<times> nat list" where
  "date_now ts = (hd ts, tl ts)"

text \<open>The gradient's id and the body's fill reference as the template of
  lines 167--180 builds them, and the clock readings left over.\<close>

definition pumpkin_svg_refs :: "nat list \<Rightarrow> (string \<times> string) \<times> nat list" where
  "pumpkin_svg_refs ts =
     (let (t1, ts1) = date_now ts;
          (t2, ts2) = date_now ts1
      in ((gradient_id t1, fill_ref t2), ts2))"

subsection \<open>The gradient reference\<close>

lemma url_target_fill_ref: "url_target (fill_ref t) = Some (gradient_id t)"
  by (simp add: url_target_def fill_ref_def gradient_id_def butlast_append)

text \<open>C32: the body's fill finds its gradient exactly when the two calls
  of \<^verbatim>\<open>Date.now()\<close> in the template read the same millisecond; when the
  clock ticks between them, the reference names an id no element has.\<close>

theorem svg_fill_resolves_iff:
  "2 \<le> length ts \<Longrightarrow>
   url_target (snd (fst (pumpkin_svg_refs ts))) = Some (fst (fst (pumpkin_svg_refs ts))) \<longleftrightarrow>
   ts ! 0 = ts ! 1"
  by (cases ts rule: list.exhaust; cases "tl ts" rule: list.exhaust)
     (auto simp: pumpkin_svg_refs_def date_now_def url_target_fill_ref gradient_id_def)

subsection \<open>The picture against its canvas\<close>

lemma pumpkin_ellipses_eq:
  "pumpkin_ellipses L =
     [\<lparr>ecx = of_int (PUMPKIN_WIDTH L) / 2, ecy = of_int (PUMPKIN_HEIGHT L) / 2,
       erx = of_int (PUMPKIN_WIDTH L) * 0.48, ery = of_int (PUMPKIN_HEIGHT L) * 0.52\<rparr>,
      \<lparr>ecx = of_int (PUMPKIN_WIDTH L) / 2,
       ecy = of_int (PUMPKIN_HEIGHT L) / 2 + of_int (PUMPKIN_HEIGHT L) * 0.08,
       erx = of_int (PUMPKIN_WIDTH L) * 0.48 * 0.9, ery = of_int (PUMPKIN_HEIGHT L) * 0.52 * 0.85\<rparr>]"
  by (simp add: pumpkin_ellipses_def pumpkin_geometry_def Let_def)

text \<open>C33: the SVG canvas is \<^verbatim>\<open>PUMPKIN_WIDTH\<close> by \<^verbatim>\<open>PUMPKIN_HEIGHT\<close>; the
  body fits its width with a margin of 2% on each side, but is 4% taller
  than the canvas, so its top and bottom are cut off, and so is the bottom
  of the shading ellipse.\<close>

theorem pumpkin_body_clipped:
  assumes "0 < PUMPKIN_WIDTH L" "0 < PUMPKIN_HEIGHT L"
  shows "0 < ecx (hd (pumpkin_ellipses L)) - erx (hd (pumpkin_ellipses L)) \<and>
         ecx (hd (pumpkin_ellipses L)) + erx (hd (pumpkin_ellipses L)) < of_int (PUMPKIN_WIDTH L) \<and>
         ecy (hd (pumpkin_ellipses L)) - ery (hd (pumpkin_ellipses L)) < 0 \<and>
         of_int (PUMPKIN_HEIGHT L) < ecy (hd (pumpkin_ellipses L)) + ery (hd (pumpkin_ellipses L)) \<and>
         of_int (PUMPKIN_HEIGHT L) < ecy (pumpkin_ellipses L ! 1) + ery (pumpkin_ellipses L ! 1)"
  using assms by (simp add: pumpkin_ellipses_eq)

text \<open>The three points of the stem's curve lie inside the body, so the
  curve, which stays in their convex hull, is drawn on the pumpkin.\<close>

lemma stem_inside_body:
  assumes "0 < PUMPKIN_WIDTH L" "0 < PUMPKIN_HEIGHT L"
  shows "\<forall>p \<in> set (fst (stem_path L)). inside_ellipse (hd (pumpkin_ellipses L)) p"
proof -
  define W where "W = (of_int (PUMPKIN_WIDTH L) :: num)"
  define H where "H = (of_int (PUMPKIN_HEIGHT L) :: num)"
  have W: "W \<noteq> 0" and H: "H \<noteq> 0" using assms by (simp_all add: W_def H_def)
  have x1: "(W / 2 - W * 0.2 - W / 2) / (W * 0.48) = - 5 / 12"
   and x2: "(W / 2 + W * 0.2 - W / 2) / (W * 0.48) = 5 / 12"
   and x0: "(W / 2 - W / 2) / (W * 0.48) = 0"
    using W by (simp_all add: field_simps)
  have y1: "(H * 0.08 - H / 2) / (H * 0.52) = - 21 / 26"
   and y0: "(H * 0.08 * 0.6 - H / 2) / (H * 0.52) = - 113 / 130"
    using H by (simp_all add: field_simps)
  show ?thesis
    using W H
    by (simp add: stem_path_def pumpkin_geometry_def pumpkin_ellipses_eq inside_ellipse_def
        Let_def x1 x2 x0 y1 y0 power2_eq_square flip: W_def H_def)
qed

subsection \<open>Witnesses\<close>

theorem svg_fill_resolves_iff_witness:
  "2 \<le> length [1000::nat, 1001] \<and>
   url_target (snd (fst (pumpkin_svg_refs [1000, 1001]))) \<noteq> Some (fst (fst (pumpkin_svg_refs [1000, 1001])))"
  using svg_fill_resolves_iff [of "[1000, 1001]"] by simp

theorem pumpkin_body_clipped_witness:
  "0 < PUMPKIN_WIDTH (compute_layout 1920 1080) \<and> 0 < PUMPKIN_HEIGHT (compute_layout 1920 1080) \<and>
   ecy (hd (pumpkin_ellipses (compute_layout 1920 1080)))
     - ery (hd (pumpkin_ellipses (compute_layout 1920 1080))) < 0"
  using pumpkin_body_clipped [of "compute_layout 1920 1080"] by (simp add: layout_full_hd)

end
