(* ===== verification/Runs.thy ===== *)
theory Runs
  imports Scenarios
begin

text \<open>
  Properties of the handlers over every state and of whole runs.  A part
  dropped with a dragged asset is placed, once its image has loaded, where
  it was dropped and at the size \<^verbatim>\<open>addPartToCanvas\<close> computes; every
  handler that saves records the scene it leaves; Delete removes the
  selected part and can be undone.  Finally, image loads drain.  No callback
  of \<^verbatim>\<open>Konva.Image.fromURL\<close> in \<^verbatim>\<open>src/script.js\<close> starts another
  load: the callbacks of \<^verbatim>\<open>loadPumpkin\<close>, \<^verbatim>\<open>addPartToCanvas\<close>,
  \<^verbatim>\<open>restoreParts\<close> and \<^verbatim>\<open>duplicateSelected\<close> add an image and may
  save the state, nothing more.  So once the user stops, the browser
  completes the pending loads one by one and the editor comes to rest:
  \<open>settle\<close> is that completion, in the order the loads were requested, and
  its termination measure is the number of loads pending.
\<close>

lemma pending_saveState [simp]: "pending (saveState s) = pending s"
  by (simp add: saveState_def)

lemma pending_complete_load [simp]: "pending (complete_load l s) = pending s"
  by (cases l) (simp_all add: pumpkin_loaded_def part_loaded_def restore_loaded_def dup_loaded_def
      new_image_def Let_def split: prod.splits)

lemma pending_load_first: "pending (handle (EvLoad 0) s) = tl (pending s)"
  by (cases "pending s") simp_all

function settle :: "editor \<Rightarrow> editor" where
  "settle s = (if pending s = [] then s else settle (handle (EvLoad 0) s))"
  by auto
termination
  by (relation "measure (\<lambda>s. length (pending s))") (auto simp: pending_load_first)

declare settle.simps [simp del]

subsection \<open>Placing a dropped part\<close>

text \<open>C27: a drop while an asset is dragged, followed by the load of its
  image, appends exactly one image on top of the layer: it shows the
  dragged asset, is centred on the drop point, is square, and its side is
  the asset's size scaled by the base image's width over 600, clamped to
  between 40 and 150 pixels; the drag is over and no load is left.\<close>

theorem dropped_part_placed:
  assumes "draggedAsset s = Some a" "pending s = []"
  shows "let s' = handle (EvLoad 0) (drop_listener e s);
             img = last (images s');
             r = size_ratio (asset_size a) * (of_int (PUMPKIN_WIDTH (config s)) / 600)
         in images s' = images s @ [img] \<and> last (layer s') = Image (length (images s)) \<and>
            pending s' = [] \<and> draggedAsset s' = None \<and>
            img_src img = asset_src a \<and>
            ax (attrs img) = fst (client_pos e) \<and> ay (attrs img) = snd (client_pos e) \<and>
            aheight (attrs img) = awidth (attrs img) \<and>
            aoffsetX (attrs img) = awidth (attrs img) / 2 \<and>
            aoffsetY (attrs img) = aheight (attrs img) / 2 \<and>
            40 \<le> awidth (attrs img) \<and> awidth (attrs img) \<le> 150 \<and>
            (40 \<le> r \<and> r \<le> 150 \<longrightarrow> awidth (attrs img) = r)"
  using assms target_size_bounds [of "PUMPKIN_WIDTH (config s)" "asset_size a"]
  by (auto simp: Let_def drop_listener_def addPartToCanvas_def part_loaded_def new_image_def
      saveState_def layer_add_def part_image_def target_size_def)

subsection \<open>Every save records the scene it leaves\<close>

lemma serialize_hist_update [simp]: "serialize (s\<lparr>hist := h\<rparr>) = serialize s"
  unfolding serialize_def is_part_def by simp

lemma saveState_current:
  "hist_inv (hist s) \<Longrightarrow> hist_at (hist (saveState s)) = Some (serialize (saveState s))"
  using length_take_step [of "hist s"]
  by (auto simp: saveState_def save_hist_eq hist_at_def hist_inv_def Let_def MAX_HISTORY_def
      nth_append split: if_splits)

text \<open>C28: after a part is moved (\<^verbatim>\<open>dragend\<close>), resized or rotated
  (\<^verbatim>\<open>transformend\<close>), placed (its load callback), after a confirmed
  Clear all and after a Delete with a selection, the snapshot under the
  history cursor is the scene the handler leaves, not the one before it.\<close>

theorem saved_snapshot_is_scene:
  assumes "hist_inv (hist s)"
  shows "hist_at (hist (dragend n px py s)) = Some (serialize (dragend n px py s)) \<and>
         hist_at (hist (transformend n a s)) = Some (serialize (transformend n a s)) \<and>
         hist_at (hist (part_loaded src pos sz s)) = Some (serialize (part_loaded src pos sz s)) \<and>
         hist_at (hist (clearAll True s)) = Some (serialize (clearAll True s)) \<and>
         (selection s \<noteq> [] \<longrightarrow>
            hist_at (hist (deleteSelected s)) = Some (serialize (deleteSelected s)))"
  using assms
  by (simp add: dragend_def transformend_def set_attrs_def part_loaded_def new_image_def
      clearAll_def deleteSelected_def Let_def saveState_current split: prod.splits)

subsection \<open>Delete\<close>

text \<open>C39: Delete with a part selected removes exactly that part from the
  layer, the others keeping their order, and clears the selection; it is
  recorded, so undo right after it returns to the snapshot before the
  delete and queues the reconstruction of its parts.\<close>

theorem delete_then_undo:
  assumes "hist_inv (hist s)" "hist_at (hist s) = Some snap"
    "selection s = [n]" "pumpkinImage s \<noteq> Some n"
  shows "layer (deleteSelected s) = remove1 (Image n) (layer s) \<and>
         selection (deleteSelected s) = [] \<and>
         hist_at (hist (undo (deleteSelected s))) = Some snap \<and>
         pending (undo (deleteSelected s)) = pending s @ [LoadRestore pd. pd \<leftarrow> snap, pd_src pd \<noteq> []]"
proof -
  obtain h' where h': "hist_undo (save_hist (serialize (s\<lparr>layer := remove1 (Image n) (layer s),
        selection := []\<rparr>)) (hist s)) = Some h'" "hist_at h' = Some snap"
    using save_then_undo [OF assms(1,2)] by blast
  then show ?thesis
    using assms(3,4) by (simp add: deleteSelected_def saveState_def undo_def restoreParts_def Let_def)
qed

text \<open>C40: completing the pending loads in request order always ends: after
  exactly as many completions as loads were pending, each of them enabled,
  no load is pending.\<close>

theorem loads_drain:
  "exec_events (replicate (length (pending s)) (EvLoad 0)) s = Some (settle s) \<and>
   pending (settle s) = []"
proof (induction s rule: settle.induct)
  case (1 s)
  show ?case
  proof (cases "pending s")
    case Nil
    then show ?thesis by (simp add: settle.simps [of s])
  next
    case (Cons l ls)
    then have "length (pending (handle (EvLoad 0) s)) = length ls"
      by (simp add: pending_load_first)
    with "1.IH" Cons show ?thesis by (simp add: settle.simps [of s])
  qed
qed

subsection \<open>Witnesses\<close>

definition stateA_dragging :: editor where
  "stateA_dragging = asset_dragstart assetB stateA"

theorem dropped_part_placed_witness:
  "draggedAsset stateA_dragging = Some assetB \<and> pending stateA_dragging = [] \<and>
   img_src (last (images (handle (EvLoad 0) (drop_listener
      \<lparr>drop_data = ''b.png'', pointer = None, client_pos = (300, 300)\<rparr> stateA_dragging)))) = ''b.png''"
proof -
  have h: "draggedAsset stateA_dragging = Some assetB" "pending stateA_dragging = []"
    unfolding stateA_dragging_def stateA_def by code_simp+
  have "img_src (last (images (handle (EvLoad 0) (drop_listener
      \<lparr>drop_data = ''b.png'', pointer = None, client_pos = (300, 300)\<rparr> stateA_dragging)))) =
    asset_src assetB"
    using dropped_part_placed [OF h, of "\<lparr>drop_data = ''b.png'', pointer = None, client_pos = (300, 300)\<rparr>"]
    unfolding Let_def by blast
  with h show ?thesis by (simp add: assetB_def)
qed

theorem saved_snapshot_is_scene_witness:
  "hist_inv (hist stateA) \<and>
   hist_at (hist (dragend 1 7 8 stateA)) = Some (serialize (dragend 1 7 8 stateA))"
proof -
  have h: "hist_inv (hist stateA)" unfolding stateA_def by code_simp
  show ?thesis using h saved_snapshot_is_scene [OF h, of 1 7 8] by simp
qed

theorem delete_then_undo_witness:
  "hist_inv (hist stateA_selected) \<and>
   hist_at (hist stateA_selected) = Some [part_at ''a.png'' 100 100] \<and>
   selection stateA_selected = [1] \<and> pumpkinImage stateA_selected \<noteq> Some 1 \<and>
   hist_at (hist (undo (deleteSelected stateA_selected))) = Some [part_at ''a.png'' 100 100]"
proof -
  have h: "hist_inv (hist stateA_selected)"
    "hist_at (hist stateA_selected) = Some [part_at ''a.png'' 100 100]"
    "selection stateA_selected = [1]" "pumpkinImage stateA_selected \<noteq> Some 1"
    unfolding stateA_selected_def by code_simp+
  show ?thesis using h delete_then_undo [OF h] by simp
qed

end
