(* ===== verification/Spec2Isabelle.thy ===== *)
theory Spec2Isabelle
  imports Export Pumpkin Runs
begin

text \<open>
  \<^bold>\<open>Verification development of pumpkin-carver.\<close>
  The program is one browser script, \<^verbatim>\<open>src/script.js\<close>: a Konva stage
  holding one layer.  Its children are a transformer, the base pumpkin image
  and the overlay parts that the user drops from the toolbox.  An undo/redo
  history stores JSON snapshots of the parts.  The parts of the program and
  how they interact:

  \<^item> \<^emph>\<open>History log\<close> (\<^verbatim>\<open>saveState\<close>, \<^verbatim>\<open>undo\<close>, \<^verbatim>\<open>redo\<close>,
    \<^verbatim>\<open>updateHistoryButtons\<close>, lines 50--134).  It is the arrays
    \<^verbatim>\<open>history\<close> and \<^verbatim>\<open>historyStep\<close>, with a capacity of
    \<^verbatim>\<open>MAX_HISTORY = 50\<close>.  Theory \<open>History\<close> models it on its own,
    polymorphic in the snapshot type: record \<open>hist_log\<close>, \<open>save_hist\<close>,
    \<open>hist_undo\<close>, \<open>hist_redo\<close>, \<open>hist_at\<close>, and the button guards
    \<open>undo_disabled\<close>/\<open>redo_disabled\<close>.
  \<^item> \<^emph>\<open>Scene reconstruction\<close>.  \<^verbatim>\<open>undo\<close> and \<^verbatim>\<open>redo\<close> destroy
    every part with \<^verbatim>\<open>layer.children.forEach(... destroy())\<close>.
    \<^verbatim>\<open>restoreParts\<close> then starts one asynchronous
    \<^verbatim>\<open>Konva.Image.fromURL\<close> per entry of the snapshot.  Theory \<open>Scene\<close>
    models the children array and the loop: \<open>foreach_destroy\<close> and
    \<open>destroy_each\<close> follow ECMAScript's forEach with Konva's in-place
    removal.  Theory \<open>Editor\<close> models \<open>serialize\<close>, \<open>saveState\<close>,
    \<open>restoreParts\<close>, \<open>undo\<close> and \<open>redo\<close> on the whole editor.
  \<^item> \<^emph>\<open>Placement\<close> (the toolbox \<^verbatim>\<open>dragstart\<close>/\<^verbatim>\<open>dragend\<close>
    listeners, the container's \<^verbatim>\<open>drop\<close> listener, \<^verbatim>\<open>addPartToCanvas\<close>):
    \<open>asset_dragstart\<close>, \<open>asset_dragend\<close> and its timer
    \<open>drag_timer_fired\<close>, \<open>drop_listener\<close>, \<open>addPartToCanvas\<close> and the
    load callback \<open>part_loaded\<close>, which adds the image and saves the state.
  \<^item> \<^emph>\<open>Selection, transform, delete, duplicate, clear, keyboard\<close> (the stage
    \<^verbatim>\<open>click tap\<close> handler, \<^verbatim>\<open>transformend\<close>, \<^verbatim>\<open>dragend\<close>,
    \<^verbatim>\<open>keydown\<close>, \<^verbatim>\<open>deleteSelected\<close>, \<^verbatim>\<open>duplicateSelected\<close>,
    \<^verbatim>\<open>clearAll\<close>).  Each is one definition of \<open>Editor\<close> with the same
    name, with its guards and early returns as branches.
  \<^item> \<^emph>\<open>Layout\<close> (the sizing constants at the top of the script, the
    pumpkin's attributes in \<^verbatim>\<open>loadPumpkin\<close>, the target size in
    \<^verbatim>\<open>addPartToCanvas\<close>, the transformer's \<^verbatim>\<open>boundBoxFunc\<close>).  This is
    theory \<open>Layout\<close>, on exact rationals.
  \<^item> \<^emph>\<open>Base image picture\<close> (the SVG of \<^verbatim>\<open>loadPumpkin\<close>, lines
    157--182): theory \<open>Pumpkin\<close>, with \<open>pumpkin_geometry\<close>,
    \<open>pumpkin_ellipses\<close>, \<open>stem_path\<close>, and the gradient's id and the
    body's reference to it (\<open>gradient_id\<close>, \<open>fill_ref\<close>), each with its
    own \<^verbatim>\<open>Date.now()\<close>.  Theory \<open>Text\<close> holds the decimal printing
    of integers that template literals perform (\<open>string_of_nat\<close>) and its
    inverse.
  \<^item> \<^emph>\<open>Export\<close> (the download and share listeners and
    \<^verbatim>\<open>fallbackCopy\<close>, lines 401--454): theory \<open>Export\<close>.  The page is a
    record \<open>browser\<close> of its own (document body, saved files, dialogs,
    clipboard, pending \<^verbatim>\<open>writeText\<close> promises).  \<open>download_click\<close>,
    \<open>share_click\<close> and \<open>fallbackCopy\<close> act on it and on the editor.  A
    \<open>session\<close> pairs editor and page; \<open>session_step\<close> runs the editor's
    events, the export clicks and the settling of clipboard promises.

  \<^bold>\<open>State and effects.\<close>
  The module's mutable state is the record \<open>editor\<close>:
  \<^item> the layer's children, a list of \<open>node\<close>;
  \<^item> a store \<open>images\<close> of every Konva image ever created, indexed by
    creation order, so that aliasing between the layer, the selection and
    pending callbacks is explicit;
  \<^item> \<^verbatim>\<open>pumpkinImage\<close>, the transformer's nodes (\<open>selection\<close>), the history
    log, \<^verbatim>\<open>draggedAsset\<close>;
  \<^item> the list \<open>pending\<close> of image loads started and not yet finished;
  \<^item> \<open>drag_timers\<close>, the \<^verbatim>\<open>setTimeout\<close> callbacks of \<^verbatim>\<open>dragend\<close>
    scheduled and not yet run.

  JavaScript numbers are rationals, so the model is exact where the doubles
  are exact; the layout sizes are floored at the source's own
  \<^verbatim>\<open>Math.floor\<close> calls.  \<^verbatim>\<open>historyStep\<close> is an \<open>int\<close> because it starts
  at \<open>-1\<close>.  Reading \<^verbatim>\<open>history[i]\<close> out of range is \<open>None\<close>.

  Each listener and each image-load callback is an \<open>event\<close>.
  \<open>handle\<close> is the one step function and \<open>enabled\<close> says which events the
  browser can deliver.  \<open>EvLoad i\<close> and \<open>EvLoadFail i\<close> finish the
  \<open>i\<close>-th pending load in any order, as the browser does; \<open>EvDragTimer\<close>
  runs a pending drag timer, at any later point.
  \<open>exec_events\<close> runs a sequence of events.  The inductive
  \<open>reachable L tb\<close> gives the states reachable from \<open>init_editor\<close>,
  for layout \<open>L\<close> and toolbox \<open>tb\<close>.

  \<^bold>\<open>What the lemmas show.\<close>
  \<^item> \<open>History\<close>:
    \<^item> every operation keeps the log invariant \<open>hist_inv\<close>;
    \<^item> the log refines a bounded zipper (\<open>hist_abs\<close> commutes with save, undo
      and redo against \<open>z_save\<close>, \<open>z_undo\<close> and \<open>z_redo\<close>);
    \<^item> a save is read back, undo then redo is the identity, and a save clears
      redo;
    \<^item> 50 saves on a log of one entry evict that first snapshot.  The cursor
      stays right under eviction.
  \<^item> \<open>Scene\<close>: the destroy loop equals \<open>skip_destroy\<close>.  It destroys only
    every other run of adjacent parts, and it equals the intended filter
    exactly when no two targeted children are adjacent.
  \<^item> \<open>Editor\<close>:
    \<^item> \<open>wf_editor\<close> holds in every reachable state (rule induction);
    \<^item> the history stays bounded and readable;
    \<^item> the selection has at most one node;
    \<^item> the base image is never deleted;
    \<^item> undo on a layer of n parts keeps n div 2 of them;
    \<^item> clear can be undone, and it leaves the transformer destroyed;
    \<^item> duplicate resets the scale;
    \<^item> the shortcut table of \<^verbatim>\<open>keydown\<close> holds, including the fact that
      Ctrl+Shift+Z never redoes.
  \<^item> \<open>Scenarios\<close>: concrete runs from \<open>init_editor\<close> at a 1920x1080 window,
    evaluated in the kernel by \<open>code_simp\<close>.  They cover the specification's
    undo/redo and truncation scenarios and the runs that expose the defects
    listed in the manifest's findings.  Among them is a drag started before
    the previous drag's reset timer fires: the part lands at the stage's
    stale pointer position, where the pointer last left the stage.
  \<^item> \<open>Pumpkin\<close>: with \<^verbatim>\<open>Date.now()\<close> reading successive clock
    values (\<open>date_now\<close>, \<open>pumpkin_svg_refs\<close>), the body's fill names its
    gradient exactly when the template's two calls read the same
    millisecond; the body is taller than its canvas and is clipped; the stem
    lies on the body.
  \<^item> \<open>Export\<close>: in every reachable session no exported picture shows the
    transformer's handles; the editor of a session is a reachable editor
    (so every invariant of \<open>Editor\<close> carries over) and the document body
    is given back; once a share has settled, exactly one of the outcomes the
    spec lists has happened, except that \<^verbatim>\<open>fallbackCopy\<close> reports
    success when the copy is refused.
  \<^item> \<open>Runs\<close>: a part dropped with a dragged asset lands, once loaded,
    centred on the drop point at the clamped, scaled size; every handler
    that saves records the scene it leaves; Delete removes the selected part
    and can be undone; pending loads drain (\<open>settle\<close> terminates by the
    number of loads pending, because no load callback starts a load).
  \<^item> \<open>Layout\<close>: bounds of the stage and the pumpkin; the pumpkin inside
    the stage for windows of at least 228x248; the transformer's minimum
    size under any gesture; negative sizes for every window narrower than
    228 or lower than 248 pixels.  The layout is computed on exact
    rationals; the script's doubles floor one pixel lower for a stage side
    of 150 or 300 pixels, which no property depends on.

  \<^bold>\<open>Bounds and choices.\<close>
  No loop needs fuel.  \<open>foreach_destroy\<close> terminates by the measure
  \<open>len - k\<close>, \<open>string_of_nat\<close> by its argument, \<open>settle\<close> by the
  number of pending loads; every other loop of the script is a fold over a
  finite list.  Asynchronous loads are the only source of unbounded behaviour: the
  model leaves them pending until an event finishes them.

  \<^bold>\<open>Not modelled.\<close>
  \<^item> Konva itself: rendering, hit testing, and the transformer's handles
    beyond \<^verbatim>\<open>boundBoxFunc\<close>.  Only the behaviour the script relies on is
    modelled, as the primitives of \<open>Scene\<close>.
  \<^item> The SVG text of the pumpkin's data URL.  Its non-integer coordinates
    are printed by JavaScript's shortest round-trip formatting of doubles,
    which exact rationals do not reproduce.  \<open>Pumpkin\<close> models the
    numbers and the gradient id and reference; \<open>pumpkin_src\<close> keeps only
    the URL's prefix.
  \<^item> The bytes of \<^verbatim>\<open>stage.toDataURL\<close>.  An export is modelled by the
    picture it encodes: the layer's children in order, with the
    transformer's handles when it has nodes.
  \<^item> The container's \<^verbatim>\<open>dragover\<close> and \<^verbatim>\<open>dragenter\<close> listeners: they
    only call \<^verbatim>\<open>preventDefault\<close> and set \<^verbatim>\<open>dropEffect\<close>, which makes
    the drop possible and changes no state of the program.
\<close>

end
